theory Spec2Isabelle
  imports Complex_Main "HOL-Library.Product_Lexorder"
begin

section \<open>Data model of the battle engine\<close>

text \<open>
  The embedding follows \<^verbatim>\<open>battle_engine_v2.py\<close>. Python objects are mutable and shared by
  reference; here a combatant is addressed by its side and its index in that side's party,
  and every mutation returns the updated \<open>battle_state\<close>. This presumes what
  \<^verbatim>\<open>start_battle\<close> sets up: no combatant object occurs twice in a party or in both parties,
  so that the identity tests of the source (\<^verbatim>\<open>p is defender\<close>, \<^verbatim>\<open>defender in party\<close>) are
  tests on side and index. A Python float is modelled as the rational it denotes, and a
  float operation rounds to binary64 (\<open>to_float\<close>); a number read from a descriptor table
  is written as the decimal it was read from. Narration strings
  are not modelled: a function that returns a message dictionary returns the state here,
  and a returned \<^verbatim>\<open>{"error": ...}\<close> is a value of type \<open>error\<close>.
\<close>

datatype BattleType = WILD | TRAINER | PVP

datatype BattleFormat = SINGLES | DOUBLES | MULTI

datatype side = Trainer | Opponent

datatype exn = IndexError | AttributeError | TypeError | KeyError | ValueError

datatype error = BattleNotFound | NoForcedSwitchPending | InvalidPartySlot | CantBattle
  | MustSwitch | WaitingForSwitch | BattleOver | InvalidBattler

record move_slot =
  slot_move_id :: string
  slot_pp :: int

record status_manager =
  volatile_statuses :: "string list"
  major_status :: "string option"

record pokemon =
  species_name :: string
  current_hp :: int
  max_hp :: int
  speed :: int
  moves :: "move_slot list"
  held_item :: "string option"
  consumed_items :: "string list"
  choice_locked_move :: "string option"
  species_data :: "string list option"
  ability :: "string option"
  ability_name :: "string option"
  status_manager :: "status_manager option"
  stat_stages :: "(string \<times> int) list option"

record battler =
  battler_id :: int
  battler_name :: string
  party :: "pokemon list"
  active_positions :: "int list"
  is_ai :: bool
  can_switch :: bool
  can_use_items :: bool
  can_flee :: bool
  trainer_class :: "string option"
  prize_money :: int

record battle_action =
  action_type :: string
  action_battler_id :: int
  move_id :: "string option"
  target_position :: "int option"
  mega_evolve :: bool
  switch_to_position :: "int option"
  item_id :: "string option"
  item_target_position :: "int option"
  priority :: int
  action_speed :: int

text \<open>
  \<open>pending_actions\<close> and the hazard maps are Python dictionaries; they are association
  lists with unique keys here, in insertion order. The key \<^verbatim>\<open>str(battler_id)\<close> is the
  integer itself. \<open>ruleset\<close> is the attribute \<^verbatim>\<open>start_battle\<close> attaches (\<open>None\<close> when the
  attribute is absent). \<open>rng_calls\<close> is not a field of the source: it counts the draws made
  from the process-wide random source.
\<close>

record battle_state =
  battle_id :: string
  battle_type :: BattleType
  battle_format :: BattleFormat
  trainer :: battler
  opponent :: battler
  turn_number :: int
  phase :: string
  forced_switch_battler_id :: "int option"
  is_over :: bool
  winner :: "string option"
  fled :: bool
  weather :: "string option"
  weather_turns :: int
  terrain :: "string option"
  terrain_turns :: int
  trainer_hazards :: "(string \<times> int) list"
  opponent_hazards :: "(string \<times> int) list"
  trainer_screens :: "(string \<times> int) list"
  opponent_screens :: "(string \<times> int) list"
  pending_actions :: "(int \<times> battle_action) list"
  pending_ai_switch_index :: "int option"
  catch_attempted :: bool
  wild_dazed :: bool
  is_ranked :: bool
  ruleset :: "string option"
  rng_calls :: nat

subsection \<open>Injected collaborators\<close>

text \<open>
  The descriptor tables and the optional subsystems are injected into the engine and are
  not part of this repository's sources; they are parameters. \<open>moves_db\<close> is
  \<^verbatim>\<open>MovesDatabase.get_move\<close>, \<open>items_db\<close> is \<^verbatim>\<open>get_item\<close> of the items database (\<open>None\<close> when
  the engine was built without one, so that \<^verbatim>\<open>held_item_manager\<close> is \<^verbatim>\<open>None\<close>),
  \<open>type_chart\<close> maps an attacking type to its row, \<open>enhanced\<close> is \<open>None\<close> exactly when
  \<^verbatim>\<open>ENHANCED_SYSTEMS_AVAILABLE\<close> is false. The methods of a combatant's status manager take
  and return the combatant. \<open>random_random n\<close> is the \<open>n\<close>-th result of \<^verbatim>\<open>random.random()\<close>,
  \<open>random_choice n\<close> the number that picks the element of the \<open>n\<close>-th \<^verbatim>\<open>random.choice\<close>.
  \<open>is_move_allowed\<close> and \<open>resolve_default_ruleset\<close> are the ruleset handler's methods
  (\<open>None\<close> when the latter raises).
\<close>

record move_data =
  md_id :: "string option"
  md_move_id :: "string option"
  md_name :: string
  md_type :: "string option"
  md_category :: "string option"
  md_priority :: "int option"

record effect_data =
  blocks_status_moves :: bool
  locks_move :: bool
  effect_type :: "string option"
  power_multiplier :: "rat option"
  effect_stat :: "string option"
  multiplier :: "rat option"
  prevents_ko :: bool
  requires_full_hp :: bool
  activation_chance :: "rat option"
  one_time_use :: bool
  recoil_percent :: "rat option"
  heal_percent :: "rat option"

record item =
  item_ident :: string
  item_trigger :: "string option"
  item_effect_data :: effect_data

record enhanced_systems =
  calculate_damage_with_effects ::
    "battle_state \<Rightarrow> side \<Rightarrow> nat \<Rightarrow> nat \<Rightarrow> string option \<Rightarrow> int \<times> rat \<times> battle_state"
  get_speed :: "pokemon \<Rightarrow> int option"
  trigger_on_entry :: "battle_state \<Rightarrow> side \<Rightarrow> nat \<Rightarrow> battle_state"
  apply_weather_damage :: "pokemon \<Rightarrow> string \<Rightarrow> pokemon"
  apply_weather_healing :: "pokemon \<Rightarrow> string \<Rightarrow> pokemon"

record engine_env =
  moves_db :: "string option \<Rightarrow> move_data option"
  type_chart :: "string \<Rightarrow> (string \<Rightarrow> rat option) option"
  items_db :: "(string \<Rightarrow> item option) option"
  enhanced :: "enhanced_systems option"
  is_move_allowed :: "string option \<Rightarrow> string \<Rightarrow> bool"
  resolve_default_ruleset :: "string \<Rightarrow> string option"
  sm_can_move :: "pokemon \<Rightarrow> bool \<times> pokemon"
  sm_can_apply_status :: "pokemon \<Rightarrow> string \<Rightarrow> bool"
  sm_apply_status :: "pokemon \<Rightarrow> string \<Rightarrow> pokemon"
  sm_apply_end_of_turn_effects :: "pokemon \<Rightarrow> pokemon"
  random_random :: "nat \<Rightarrow> rat"
  random_choice :: "nat \<Rightarrow> nat"

subsection \<open>Python primitives\<close>

definition py_index :: "'a list \<Rightarrow> int \<Rightarrow> exn + 'a" where
  "py_index xs i =
     (let n = int (length xs)
      in if 0 \<le> i \<and> i < n then Inr (xs ! nat i)
         else if - n \<le> i \<and> i < 0 then Inr (xs ! nat (n + i))
         else Inl IndexError)"

text \<open>The position a valid Python index denotes in a list of length \<open>n\<close>.\<close>

definition py_slot :: "nat \<Rightarrow> int \<Rightarrow> nat" where
  "py_slot n i = (if 0 \<le> i then nat i else nat (int n + i))"

definition py_int :: "rat \<Rightarrow> int" where
  "py_int x = (if 0 \<le> x then \<lfloor>x\<rfloor> else \<lceil>x\<rceil>)"

definition py_round :: "rat \<Rightarrow> int" where
  "py_round x =
     (let f = \<lfloor>x\<rfloor>; d = x - of_int f
      in if d < 1 / 2 then f
         else if 1 / 2 < d then f + 1
         else if even f then f else f + 1)"

text \<open>
  A Python float is a binary64 number; it is modelled by the rational it denotes.
  \<open>to_float\<close> rounds an exact rational to the nearest binary64 number, ties to even, as
  every float operation and the reading of a decimal literal do (the exponent range is
  not modelled: no value here comes near its ends). \<open>float_exponent x\<close> is the \<open>e\<close> with
  \<open>2^e \<le> |x| < 2^(e+1)\<close>.
\<close>

definition pow2 :: "int \<Rightarrow> rat" where
  "pow2 e = (if 0 \<le> e then 2 ^ nat e else 1 / 2 ^ nat (- e))"

function ilog2 :: "int \<Rightarrow> int" where
  "ilog2 a = (if a \<le> 1 then 0 else 1 + ilog2 (a div 2))"
  by auto
termination
  by (relation "measure nat") auto

declare ilog2.simps [simp del]

definition float_exponent :: "rat \<Rightarrow> int" where
  "float_exponent x =
     (let e0 = ilog2 \<bar>fst (quotient_of x)\<bar> - ilog2 (snd (quotient_of x))
      in if \<bar>x\<bar> < pow2 e0 then e0 - 1 else e0)"

definition to_float :: "rat \<Rightarrow> rat" where
  "to_float x =
     (if x = 0 then 0
      else of_int (py_round (x / pow2 (float_exponent x - 52))) * pow2 (float_exponent x - 52))"

text \<open>\<^verbatim>\<open>n * m\<close> for an integer \<open>n\<close> and a float \<open>m\<close>, and \<^verbatim>\<open>n / m\<close>.\<close>

definition int_times_float :: "int \<Rightarrow> rat \<Rightarrow> rat" where
  "int_times_float n m = to_float (to_float (of_int n) * m)"

definition int_over_float :: "int \<Rightarrow> rat \<Rightarrow> rat" where
  "int_over_float n m = to_float (to_float (of_int n) / m)"

definition lower_char :: "char \<Rightarrow> char" where
  "lower_char c =
     (let n = (of_char c :: nat) in if 65 \<le> n \<and> n \<le> 90 then char_of (n + 32) else c)"

definition lower :: "string \<Rightarrow> string" where
  "lower s = map lower_char s"

definition truthy :: "string option \<Rightarrow> bool" where
  "truthy v = (case v of None \<Rightarrow> False | Some s \<Rightarrow> s \<noteq> [])"

definition str_or :: "string option \<Rightarrow> string option \<Rightarrow> string option" where
  "str_or a b = (if truthy a then a else b)"

definition num_truthy :: "rat option \<Rightarrow> bool" where
  "num_truthy v = (case v of None \<Rightarrow> False | Some r \<Rightarrow> r \<noteq> 0)"

definition dict_pop :: "'k \<Rightarrow> ('k \<times> 'v) list \<Rightarrow> ('k \<times> 'v) list" where
  "dict_pop k d = filter (\<lambda>kv. fst kv \<noteq> k) d"

fun dict_set :: "'k \<Rightarrow> 'v \<Rightarrow> ('k \<times> 'v) list \<Rightarrow> ('k \<times> 'v) list" where
  "dict_set k v [] = [(k, v)]"
| "dict_set k v (kv # d) = (if fst kv = k then (k, v) # d else kv # dict_set k v d)"

subsection \<open>Held-item manager\<close>

definition is_consumed :: "pokemon \<Rightarrow> string \<Rightarrow> bool" where
  "is_consumed p iid = (iid \<in> set (consumed_items p))"

definition consume :: "pokemon \<Rightarrow> string \<Rightarrow> pokemon" where
  "consume p iid = p\<lparr>consumed_items := List.insert iid (consumed_items p)\<rparr>"

definition get_item :: "engine_env \<Rightarrow> pokemon \<Rightarrow> item option" where
  "get_item env p =
     (case items_db env of
        None \<Rightarrow> None
      | Some db \<Rightarrow>
          if \<not> truthy (held_item p) then None
          else if is_consumed p (the (held_item p)) then None
          else db (the (held_item p)))"

definition check_move_restrictions :: "engine_env \<Rightarrow> pokemon \<Rightarrow> move_data \<Rightarrow> bool" where
  "check_move_restrictions env p md =
     (case get_item env p of
        None \<Rightarrow> False
      | Some it \<Rightarrow>
          let effect = item_effect_data it
          in if blocks_status_moves effect \<and> md_category md = Some ''status'' then True
             else if locks_move effect then
               (let locked = choice_locked_move p;
                    mid = str_or (md_id md) (md_move_id md)
                in truthy locked \<and> truthy mid \<and> mid \<noteq> locked)
             else False)"

definition move_ident :: "move_data \<Rightarrow> string option" where
  "move_ident md = str_or (md_id md) (md_move_id md)"

definition register_move_use :: "engine_env \<Rightarrow> pokemon \<Rightarrow> move_data \<Rightarrow> pokemon" where
  "register_move_use env p md =
     (case get_item env p of
        None \<Rightarrow> p
      | Some it \<Rightarrow>
          if locks_move (item_effect_data it)
          then p\<lparr>choice_locked_move := move_ident md\<rparr>
          else p)"

definition clear_choice_lock :: "pokemon \<Rightarrow> pokemon" where
  "clear_choice_lock p = p\<lparr>choice_locked_move := None\<rparr>"

definition power_multiplier_of :: "engine_env \<Rightarrow> pokemon \<Rightarrow> move_data \<Rightarrow> rat" where
  "power_multiplier_of env p md =
     (case get_item env p of
        None \<Rightarrow> 1
      | Some it \<Rightarrow>
          let effect = item_effect_data it;
              move_type = lower (case md_type md of None \<Rightarrow> [] | Some t \<Rightarrow> t);
              category = md_category md;
              pm = (case power_multiplier effect of None \<Rightarrow> 1 | Some m \<Rightarrow> to_float m);
              m1 = (if truthy (effect_type effect)
                    then (if move_type = lower (the (effect_type effect)) then pm else 1)
                    else pm);
              stat_mult = (case multiplier effect of None \<Rightarrow> 1 | Some m \<Rightarrow> to_float m)
          in if effect_stat effect = Some ''attack'' \<and> category = Some ''physical''
             then to_float (m1 * stat_mult)
             else if effect_stat effect = Some ''sp_attack'' \<and> category = Some ''special''
             then to_float (m1 * stat_mult)
             else m1)"

definition defense_multiplier_of :: "engine_env \<Rightarrow> pokemon \<Rightarrow> move_data \<Rightarrow> rat" where
  "defense_multiplier_of env p md =
     (case get_item env p of
        None \<Rightarrow> 1
      | Some it \<Rightarrow>
          let effect = item_effect_data it
          in if effect_stat effect = Some ''sp_defense'' \<and> md_category md = Some ''special''
             then (case multiplier effect of None \<Rightarrow> 1 | Some m \<Rightarrow> to_float m)
             else 1)"

text \<open>
  \<^verbatim>\<open>_try_focus_items\<close> returns the damage and mutates the defender (the consumed set);
  it draws from the random source only when the item has an \<^verbatim>\<open>activation_chance\<close>. The
  third component is the number of draws made so far.
\<close>

definition focus_cap :: "item \<Rightarrow> pokemon \<Rightarrow> int \<Rightarrow> nat \<Rightarrow> int \<times> pokemon \<times> nat" where
  "focus_cap it defender damage n =
     (if current_hp defender \<le> 1 then (damage, defender, n)
      else (current_hp defender - 1,
            (if one_time_use (item_effect_data it) then consume defender (item_ident it)
             else defender),
            n))"

definition try_focus_items ::
  "engine_env \<Rightarrow> nat \<Rightarrow> pokemon \<Rightarrow> int \<Rightarrow> int \<times> pokemon \<times> nat" where
  "try_focus_items env n defender damage =
     (if damage < current_hp defender \<or> current_hp defender \<le> 0 then (damage, defender, n)
      else case get_item env defender of
        None \<Rightarrow> (damage, defender, n)
      | Some it \<Rightarrow>
          let effect = item_effect_data it
          in if truthy (item_trigger it) \<and> item_trigger it \<noteq> Some ''before_damage''
             then (damage, defender, n)
             else if \<not> (prevents_ko effect \<or> requires_full_hp effect
                         \<or> activation_chance effect \<noteq> None)
             then (damage, defender, n)
             else if requires_full_hp effect \<and> current_hp defender < max_hp defender
             then (damage, defender, n)
             else (case activation_chance effect of
                 None \<Rightarrow> focus_cap it defender damage n
               | Some activation \<Rightarrow>
                   if activation < random_random env n then (damage, defender, Suc n)
                   else focus_cap it defender damage (Suc n)))"

definition modify_damage ::
  "engine_env \<Rightarrow> nat \<Rightarrow> pokemon \<Rightarrow> pokemon \<Rightarrow> move_data \<Rightarrow> int \<Rightarrow> int \<times> pokemon \<times> nat" where
  "modify_damage env n attacker defender md damage =
     (if damage \<le> 0 then (damage, defender, n)
      else
        let d1 = py_round (int_times_float damage (power_multiplier_of env attacker md));
            defense_mult = defense_multiplier_of env defender md;
            d2 = (if 1 < defense_mult
                  then max 1 (\<lceil>int_over_float d1 defense_mult\<rceil>)
                  else d1)
        in try_focus_items env n defender d2)"

definition apply_after_damage ::
  "engine_env \<Rightarrow> pokemon \<Rightarrow> move_data \<Rightarrow> int \<Rightarrow> pokemon" where
  "apply_after_damage env attacker md dealt_damage =
     (case get_item env attacker of
        None \<Rightarrow> attacker
      | Some it \<Rightarrow>
          let a1 = register_move_use env attacker md
          in if dealt_damage \<le> 0 then a1
             else if num_truthy (recoil_percent (item_effect_data it))
             then (let recoil = max 1 (py_round (int_times_float (max_hp a1)
                                  (to_float (to_float (the (recoil_percent
                                     (item_effect_data it))) / 100))))
                   in a1\<lparr>current_hp := max 0 (current_hp a1 - recoil)\<rparr>)
             else a1)"

definition held_process_end_of_turn :: "engine_env \<Rightarrow> pokemon \<Rightarrow> pokemon" where
  "held_process_end_of_turn env p =
     (case get_item env p of
        None \<Rightarrow> p
      | Some it \<Rightarrow>
          let hp = heal_percent (item_effect_data it)
          in if \<not> num_truthy hp \<or> current_hp p \<le> 0 \<or> max_hp p \<le> current_hp p then p
             else (let heal = max 1 (py_round (int_times_float (max_hp p)
                                               (to_float (to_float (the hp) / 100))))
                   in p\<lparr>current_hp := min (max_hp p) (current_hp p + heal)\<rparr>))"

definition get_speed_multiplier :: "engine_env \<Rightarrow> pokemon \<Rightarrow> rat" where
  "get_speed_multiplier env p =
     (case get_item env p of
        None \<Rightarrow> 1
      | Some it \<Rightarrow>
          if effect_stat (item_effect_data it) = Some ''speed''
          then (case multiplier (item_effect_data it) of None \<Rightarrow> 1 | Some m \<Rightarrow> to_float m)
          else 1)"

subsection \<open>Battler\<close>

definition has_usable_pokemon :: "battler \<Rightarrow> bool" where
  "has_usable_pokemon b = list_ex (\<lambda>p. current_hp p > 0) (party b)"

subsection \<open>Terminal check\<close>

definition check_battle_end :: "battle_state \<Rightarrow> battle_state" where
  "check_battle_end battle =
     (let trainer_has_pokemon = has_usable_pokemon (trainer battle);
          opponent_has_pokemon = has_usable_pokemon (opponent battle)
      in if \<not> trainer_has_pokemon \<and> \<not> opponent_has_pokemon
         then battle\<lparr>is_over := True, winner := Some ''draw''\<rparr>
         else if \<not> trainer_has_pokemon
         then battle\<lparr>is_over := True, winner := Some ''opponent''\<rparr>
         else if \<not> opponent_has_pokemon
         then battle\<lparr>is_over := True, winner := Some ''trainer''\<rparr>
         else battle)"

subsection \<open>Addressing combatants\<close>

definition other_side :: "side \<Rightarrow> side" where
  "other_side s = (case s of Trainer \<Rightarrow> Opponent | Opponent \<Rightarrow> Trainer)"

definition get_battler :: "battle_state \<Rightarrow> side \<Rightarrow> battler" where
  "get_battler battle s = (case s of Trainer \<Rightarrow> trainer battle | Opponent \<Rightarrow> opponent battle)"

definition set_battler :: "side \<Rightarrow> battler \<Rightarrow> battle_state \<Rightarrow> battle_state" where
  "set_battler s bt battle =
     (case s of Trainer \<Rightarrow> battle\<lparr>trainer := bt\<rparr> | Opponent \<Rightarrow> battle\<lparr>opponent := bt\<rparr>)"

text \<open>
  \<^verbatim>\<open>battle.trainer if battler_id == battle.trainer.battler_id else battle.opponent\<close>: any
  id other than the trainer's selects the opponent.
\<close>

definition side_of :: "battle_state \<Rightarrow> int \<Rightarrow> side" where
  "side_of battle bid = (if bid = battler_id (trainer battle) then Trainer else Opponent)"

definition get_pokemon :: "battle_state \<Rightarrow> side \<Rightarrow> nat \<Rightarrow> pokemon" where
  "get_pokemon battle s i = party (get_battler battle s) ! i"

definition map_pokemon ::
  "side \<Rightarrow> nat \<Rightarrow> (pokemon \<Rightarrow> pokemon) \<Rightarrow> battle_state \<Rightarrow> battle_state" where
  "map_pokemon s i f battle =
     (let bt = get_battler battle s
      in set_battler s (bt\<lparr>party := (party bt)[i := f (party bt ! i)]\<rparr>) battle)"

text \<open>
  \<^verbatim>\<open>get_active_pokemon\<close> is \<^verbatim>\<open>[self.party[i] for i in self.active_positions if i < len(self.party)]\<close>.
  The model returns the party indices of those combatants: an index that is too large is
  dropped, a negative one counts from the end, and one below \<open>- len\<close> raises.
\<close>

fun active_indices_from :: "nat \<Rightarrow> int list \<Rightarrow> exn + nat list" where
  "active_indices_from n [] = Inr []"
| "active_indices_from n (i # is) =
     (if i < int n then
        (if i < - int n then Inl IndexError
         else case active_indices_from n is of
                Inl e \<Rightarrow> Inl e
              | Inr js \<Rightarrow> Inr ((if 0 \<le> i then nat i else nat (int n + i)) # js))
      else active_indices_from n is)"

definition active_indices :: "battler \<Rightarrow> exn + nat list" where
  "active_indices bt = active_indices_from (length (party bt)) (active_positions bt)"

definition first_active :: "battler \<Rightarrow> exn + nat" where
  "first_active bt =
     (case active_indices bt of
        Inl e \<Rightarrow> Inl e
      | Inr [] \<Rightarrow> Inl IndexError
      | Inr (i # _) \<Rightarrow> Inr i)"

subsection \<open>Scheduler\<close>

definition get_effective_speed :: "engine_env \<Rightarrow> pokemon \<Rightarrow> int" where
  "get_effective_speed env p =
     (let s0 = speed p;
          s1 = (case enhanced env of
                  None \<Rightarrow> s0
                | Some enh \<Rightarrow> (case get_speed enh p of None \<Rightarrow> s0 | Some v \<Rightarrow> v))
      in if items_db env \<noteq> None
         then py_round (int_times_float s1 (get_speed_multiplier env p))
         else s1)"

definition get_action_priority ::
  "engine_env \<Rightarrow> battle_state \<Rightarrow> battle_action \<Rightarrow> exn + (int \<times> int)" where
  "get_action_priority env battle action =
     (if action_type action = ''switch'' then Inr (100, 999)
      else if action_type action = ''item'' then Inr (90, 999)
      else if action_type action = ''move'' then
        (case moves_db env (move_id action) of
           None \<Rightarrow> Inl AttributeError
         | Some md \<Rightarrow>
             let prio = (case md_priority md of None \<Rightarrow> 0 | Some v \<Rightarrow> v);
                 bt = get_battler battle (side_of battle (action_battler_id action))
             in (case first_active bt of
                   Inl e \<Rightarrow> Inl e
                 | Inr i \<Rightarrow> Inr (prio, get_effective_speed env (party bt ! i))))
      else Inr (0, 0))"

text \<open>
  \<^verbatim>\<open>actions.sort(key=get_action_priority, reverse=True)\<close>: the keys are computed first, in
  list order (the first exception propagates); the sort is stable and descending. Stable
  insertion from the right gives that order.
\<close>

fun keyed :: "('a \<Rightarrow> exn + 'k) \<Rightarrow> 'a list \<Rightarrow> exn + ('k \<times> 'a) list" where
  "keyed f [] = Inr []"
| "keyed f (x # xs) =
     (case f x of
        Inl e \<Rightarrow> Inl e
      | Inr k \<Rightarrow> (case keyed f xs of Inl e \<Rightarrow> Inl e | Inr ks \<Rightarrow> Inr ((k, x) # ks)))"

fun insert_desc :: "('a \<Rightarrow> 'k::linorder) \<Rightarrow> 'a \<Rightarrow> 'a list \<Rightarrow> 'a list" where
  "insert_desc f x [] = [x]"
| "insert_desc f x (y # ys) = (if f y \<le> f x then x # y # ys else y # insert_desc f x ys)"

definition sort_desc :: "('a \<Rightarrow> 'k::linorder) \<Rightarrow> 'a list \<Rightarrow> 'a list" where
  "sort_desc f xs = foldr (insert_desc f) xs []"

definition sort_actions ::
  "engine_env \<Rightarrow> battle_state \<Rightarrow> battle_action list \<Rightarrow> exn + battle_action list" where
  "sort_actions env battle actions =
     (case keyed (get_action_priority env battle) actions of
        Inl e \<Rightarrow> Inl e
      | Inr ks \<Rightarrow> Inr (map snd (sort_desc fst ks)))"

subsection \<open>Entry hazards\<close>

definition pokemon_types :: "pokemon \<Rightarrow> string list" where
  "pokemon_types p = map lower (case species_data p of None \<Rightarrow> [] | Some ts \<Rightarrow> ts)"

definition is_grounded :: "pokemon \<Rightarrow> bool" where
  "is_grounded p =
     (''flying'' \<notin> set (pokemon_types p)
      \<and> (case str_or (ability p) (ability_name p) of
            None \<Rightarrow> True
          | Some a \<Rightarrow> lower a \<noteq> ''levitate''))"

definition rock_effectiveness :: "engine_env \<Rightarrow> string list \<Rightarrow> rat" where
  "rock_effectiveness env types =
     (case type_chart env ''rock'' of
        None \<Rightarrow> 1
      | Some row \<Rightarrow> fold (\<lambda>t eff. case row t of None \<Rightarrow> eff | Some m \<Rightarrow> eff * m) types 1)"

definition stealth_rock_damage :: "engine_env \<Rightarrow> pokemon \<Rightarrow> int" where
  "stealth_rock_damage env p =
     (let eff = rock_effectiveness env (pokemon_types p);
          base = max 1 (max_hp p div 8)
      in if 0 < eff then max 1 (py_int (of_int base * eff)) else 0)"

definition spikes_damage :: "int \<Rightarrow> pokemon \<Rightarrow> int" where
  "spikes_damage stored p =
     (let layers = min 3 stored;
          frac_den = (if layers = 1 then 8 else if layers = 2 then 6 else 4)
      in max 1 ((max_hp p * 1) div frac_den))"

definition lose_hp :: "int \<Rightarrow> pokemon \<Rightarrow> pokemon" where
  "lose_hp dmg p = p\<lparr>current_hp := max 0 (current_hp p - dmg)\<rparr>"

definition side_hazards :: "battle_state \<Rightarrow> side \<Rightarrow> (string \<times> int) list" where
  "side_hazards battle s =
     (if get_battler battle s = opponent battle then opponent_hazards battle
      else trainer_hazards battle)"

definition clear_toxic_spikes :: "side \<Rightarrow> battle_state \<Rightarrow> battle_state" where
  "clear_toxic_spikes s battle =
     (if get_battler battle s = opponent battle
      then battle\<lparr>opponent_hazards := dict_pop ''toxic_spikes'' (opponent_hazards battle)\<rparr>
      else battle\<lparr>trainer_hazards := dict_pop ''toxic_spikes'' (trainer_hazards battle)\<rparr>)"

definition toxic_spikes_entry ::
  "engine_env \<Rightarrow> (string \<times> int) list \<Rightarrow> side \<Rightarrow> nat \<Rightarrow> battle_state \<Rightarrow> battle_state" where
  "toxic_spikes_entry env hazards s i battle =
     (let p = get_pokemon battle s i
      in if map_of hazards ''toxic_spikes'' \<noteq> None \<and> is_grounded p then
           (let layers = min 2 (the (map_of hazards ''toxic_spikes''))
            in if ''poison'' \<in> set (pokemon_types p) then clear_toxic_spikes s battle
               else if ''steel'' \<notin> set (pokemon_types p) then
                 (if status_manager p \<noteq> None then
                    (let status = (if 2 \<le> layers then ''tox'' else ''psn'')
                     in if sm_can_apply_status env p status
                        then map_pokemon s i (\<lambda>q. sm_apply_status env q status) battle
                        else battle)
                  else battle)
               else battle)
         else battle)"

definition default_stat_stages :: "(string \<times> int) list" where
  "default_stat_stages =
     [(''attack'', 0), (''defense'', 0), (''sp_attack'', 0), (''sp_defense'', 0),
      (''speed'', 0), (''evasion'', 0), (''accuracy'', 0)]"

definition sticky_web_entry ::
  "(string \<times> int) list \<Rightarrow> side \<Rightarrow> nat \<Rightarrow> battle_state \<Rightarrow> exn + battle_state" where
  "sticky_web_entry hazards s i battle =
     (let p = get_pokemon battle s i
      in if map_of hazards ''sticky_web'' \<noteq> None \<and> is_grounded p then
           (let stages = (case stat_stages p of None \<Rightarrow> default_stat_stages | Some st \<Rightarrow> st)
            in case map_of stages ''speed'' of
                 None \<Rightarrow> Inl KeyError
               | Some v \<Rightarrow>
                   Inr (map_pokemon s i
                          (\<lambda>q. q\<lparr>stat_stages := Some (dict_set ''speed'' (max (- 6) (v - 1)) stages)\<rparr>)
                          battle))
         else Inr battle)"

text \<open>
  \<^verbatim>\<open>_apply_entry_hazards\<close> up to the sticky-web block, the only one that can raise (a
  \<open>stat_stages\<close> dictionary without \<open>speed\<close>), and the whole function.
\<close>

definition hazards_before_web ::
  "engine_env \<Rightarrow> (string \<times> int) list \<Rightarrow> battle_state \<Rightarrow> side \<Rightarrow> nat \<Rightarrow> battle_state" where
  "hazards_before_web env hazards battle s i =
     (let p = get_pokemon battle s i;
          b1 = (if map_of hazards ''stealth_rock'' \<noteq> None \<and> species_data p \<noteq> None
                   \<and> 0 < stealth_rock_damage env p
                then map_pokemon s i (lose_hp (stealth_rock_damage env p)) battle
                else battle);
          b2 = (if is_grounded p \<and> map_of hazards ''spikes'' \<noteq> None
                then map_pokemon s i
                       (lose_hp (spikes_damage (the (map_of hazards ''spikes'')) p)) b1
                else b1)
      in toxic_spikes_entry env hazards s i b2)"

definition apply_entry_hazards ::
  "engine_env \<Rightarrow> battle_state \<Rightarrow> side \<Rightarrow> nat \<Rightarrow> exn + battle_state" where
  "apply_entry_hazards env battle s i =
     (let hazards = side_hazards battle s
      in if hazards = [] then Inr battle
         else sticky_web_entry hazards s i (hazards_before_web env hazards battle s i))"

subsection \<open>Switching\<close>

definition execute_switch ::
  "engine_env \<Rightarrow> battle_state \<Rightarrow> battle_action \<Rightarrow> exn + battle_state" where
  "execute_switch env battle action =
     (let s = side_of battle (action_battler_id action);
          bt = get_battler battle s
      in case first_active bt of
           Inl e \<Rightarrow> Inl e
         | Inr old \<Rightarrow>
            (case switch_to_position action of
               None \<Rightarrow> Inl TypeError
             | Some pos \<Rightarrow>
                (case py_index (upt 0 (length (party bt))) pos of
                   Inl e \<Rightarrow> Inl e
                 | Inr new \<Rightarrow>
                     let b1 = set_battler s
                                (bt\<lparr>active_positions := (active_positions bt)[0 := pos]\<rparr>) battle;
                         b2 = (if items_db env \<noteq> None
                               then map_pokemon s old clear_choice_lock b1 else b1);
                         b3 = (case enhanced env of
                                 None \<Rightarrow> b2
                               | Some enh \<Rightarrow> trigger_on_entry enh b2 s new)
                     in apply_entry_hazards env b3 s new)))"

text \<open>
  \<^verbatim>\<open>force_switch\<close> on the battle found in the registry: a returned error dictionary is
  \<open>Inr (Inl err)\<close>, a raised exception is \<open>Inl\<close>.
\<close>

definition force_switch_battle ::
  "engine_env \<Rightarrow> battle_state \<Rightarrow> int \<Rightarrow> int \<Rightarrow> exn + (error + battle_state)" where
  "force_switch_battle env battle bid pos =
     (if phase battle \<noteq> ''FORCED_SWITCH'' \<or> forced_switch_battler_id battle \<noteq> Some bid
      then Inr (Inl NoForcedSwitchPending)
      else
        let bt = get_battler battle (side_of battle bid)
        in if pos < 0 \<or> int (length (party bt)) \<le> pos then Inr (Inl InvalidPartySlot)
           else if current_hp (party bt ! nat pos) \<le> 0 then Inr (Inl CantBattle)
           else
             (case execute_switch env battle
                     \<lparr>action_type = ''switch'', action_battler_id = bid, move_id = None,
                      target_position = None, mega_evolve = False,
                      switch_to_position = Some pos, item_id = None,
                      item_target_position = None, priority = 0, action_speed = 0\<rparr> of
                Inl e \<Rightarrow> Inl e
              | Inr b1 \<Rightarrow>
                  Inr (Inr (b1\<lparr>phase := ''WAITING_ACTIONS'',
                               forced_switch_battler_id := None,
                               pending_ai_switch_index := None,
                               pending_actions := dict_pop bid (pending_actions b1)\<rparr>))))"

text \<open>The registry \<^verbatim>\<open>active_battles\<close> and \<^verbatim>\<open>force_switch\<close> as the callers see it.\<close>

type_synonym registry = "string \<Rightarrow> battle_state option"

definition force_switch ::
  "engine_env \<Rightarrow> registry \<Rightarrow> string \<Rightarrow> int \<Rightarrow> int \<Rightarrow> exn + (error + unit) \<times> registry" where
  "force_switch env reg bid battler pos =
     (case reg bid of
        None \<Rightarrow> Inr (Inl BattleNotFound, reg)
      | Some battle \<Rightarrow>
          (case force_switch_battle env battle battler pos of
             Inl e \<Rightarrow> Inl e
           | Inr (Inl err) \<Rightarrow> Inr (Inl err, reg)
           | Inr (Inr b1) \<Rightarrow> Inr (Inr (), reg(bid \<mapsto> b1))))"

subsection \<open>Move execution\<close>

definition move_targets ::
  "battle_state \<Rightarrow> battle_action \<Rightarrow> exn + (side \<times> nat \<times> side \<times> nat)" where
  "move_targets battle action =
     (let sa = side_of battle (action_battler_id action);
          sd = other_side sa
      in case first_active (get_battler battle sa) of
           Inl e \<Rightarrow> Inl e
         | Inr ai \<Rightarrow>
            (case active_indices (get_battler battle sd) of
               Inl e \<Rightarrow> Inl e
             | Inr ds \<Rightarrow>
                (case py_index ds (case target_position action of None \<Rightarrow> 0 | Some t \<Rightarrow> t) of
                   Inl e \<Rightarrow> Inl e
                 | Inr di \<Rightarrow> Inr (sa, ai, sd, di))))"

fun deduct_pp :: "string option \<Rightarrow> move_slot list \<Rightarrow> move_slot list" where
  "deduct_pp mid [] = []"
| "deduct_pp mid (m # ms) =
     (if Some (slot_move_id m) = mid then m\<lparr>slot_pp := max 0 (slot_pp m - 1)\<rparr> # ms
      else m # deduct_pp mid ms)"

definition has_endure :: "pokemon \<Rightarrow> bool" where
  "has_endure p =
     (case status_manager p of
        None \<Rightarrow> False
      | Some sm \<Rightarrow> ''endure'' \<in> set (volatile_statuses sm))"

text \<open>
  From the PP deduction to the after-damage item effects. Without the enhanced systems the
  damage is the fixed 10 of the fallback.
\<close>

definition resolve_hit ::
  "engine_env \<Rightarrow> battle_state \<Rightarrow> battle_action \<Rightarrow> side \<Rightarrow> nat \<Rightarrow> side \<Rightarrow> nat \<Rightarrow> move_data
   \<Rightarrow> battle_state" where
  "resolve_hit env battle action sa ai sd di md =
     (let b2 = map_pokemon sa ai (\<lambda>p. p\<lparr>moves := deduct_pp (move_id action) (moves p)\<rparr>) battle;
          calc = (case enhanced env of
                    None \<Rightarrow> (10, 1, b2)
                  | Some enh \<Rightarrow> calculate_damage_with_effects enh b2 sa ai di (move_id action));
          damage = fst calc;
          b3 = snd (snd calc);
          held = (if items_db env \<noteq> None
                  then modify_damage env (rng_calls b3) (get_pokemon b3 sa ai)
                         (get_pokemon b3 sd di) md damage
                  else (damage, get_pokemon b3 sd di, rng_calls b3));
          damage2 = fst held;
          b4 = (map_pokemon sd di (\<lambda>_. fst (snd held)) b3)\<lparr>rng_calls := snd (snd held)\<rparr>;
          defender = get_pokemon b4 sd di;
          damage3 = (if current_hp defender \<le> damage2 \<and> has_endure defender
                        \<and> 1 < current_hp defender
                     then current_hp defender - 1 else damage2);
          b5 = (if 0 < damage3 then map_pokemon sd di (lose_hp damage3) b4 else b4)
      in if items_db env \<noteq> None
         then map_pokemon sa ai (\<lambda>p. apply_after_damage env p md damage3) b5
         else b5)"

definition first_healthy_except :: "int option \<Rightarrow> pokemon list \<Rightarrow> int option" where
  "first_healthy_except skip ps =
     (case filter (\<lambda>j. Some (int j) \<noteq> skip \<and> 0 < current_hp (ps ! j)) (upt 0 (length ps)) of
        [] \<Rightarrow> None
      | j # _ \<Rightarrow> Some (int j))"

definition usable_count :: "nat \<Rightarrow> pokemon list \<Rightarrow> nat" where
  "usable_count di ps =
     length (filter (\<lambda>j. 0 < current_hp (ps ! j) \<and> j \<noteq> di) (upt 0 (length ps)))"

text \<open>The check for a faint or a daze at the end of \<^verbatim>\<open>_execute_move\<close>.\<close>

definition handle_faint :: "battle_state \<Rightarrow> side \<Rightarrow> nat \<Rightarrow> battle_state" where
  "handle_faint battle sd di =
     (if current_hp (get_pokemon battle sd di) \<le> 0 then
        (let defender_battler = get_battler battle sd
         in if battle_type battle = WILD \<and> defender_battler = opponent battle then
              (map_pokemon sd di (\<lambda>p. p\<lparr>current_hp := 1\<rparr>) battle)
                \<lparr>phase := ''DAZED'', wild_dazed := True\<rparr>
            else if defender_battler = trainer battle \<and> \<not> is_ai defender_battler then
              (if has_usable_pokemon defender_battler then
                 (if 0 < usable_count di (party defender_battler)
                  then battle\<lparr>phase := ''FORCED_SWITCH'',
                              forced_switch_battler_id := Some (battler_id defender_battler)\<rparr>
                  else check_battle_end battle)
               else battle)
            else if is_ai defender_battler
                    \<and> (battle_type battle = TRAINER \<or> battle_type battle = PVP) then
              (if has_usable_pokemon defender_battler then
                 (case first_healthy_except (Some (int di)) (party defender_battler) of
                    None \<Rightarrow> battle
                  | Some idx \<Rightarrow>
                      battle\<lparr>phase := ''FORCED_SWITCH'',
                             forced_switch_battler_id := Some (battler_id defender_battler),
                             pending_ai_switch_index := Some idx\<rparr>)
               else check_battle_end battle)
            else battle)
      else battle)"

definition execute_move ::
  "engine_env \<Rightarrow> battle_state \<Rightarrow> battle_action \<Rightarrow> exn + battle_state" where
  "execute_move env battle action =
     (case move_targets battle action of
        Inl e \<Rightarrow> Inl e
      | Inr (sa, ai, sd, di) \<Rightarrow>
          let checked = (if enhanced env \<noteq> None \<and> status_manager (get_pokemon battle sa ai) \<noteq> None
                         then sm_can_move env (get_pokemon battle sa ai)
                         else (True, get_pokemon battle sa ai));
              b1 = map_pokemon sa ai (\<lambda>_. snd checked) battle
          in if \<not> fst checked then Inr b1
             else (case moves_db env (move_id action) of
                     None \<Rightarrow> Inr b1
                   | Some md \<Rightarrow>
                       if items_db env \<noteq> None
                          \<and> check_move_restrictions env (get_pokemon b1 sa ai) md
                       then Inr b1
                       else if ruleset b1 \<noteq> None
                               \<and> \<not> is_move_allowed env (move_id action) (the (ruleset b1))
                       then Inr b1
                       else Inr (handle_faint (resolve_hit env b1 action sa ai sd di md) sd di)))"

definition execute_flee :: "engine_env \<Rightarrow> battle_state \<Rightarrow> battle_state" where
  "execute_flee env battle =
     (if battle_type battle \<noteq> WILD then battle
      else
        let r = random_random env (rng_calls battle);
            b1 = battle\<lparr>rng_calls := Suc (rng_calls battle)\<rparr>
        in if r < 1 / 2 then b1\<lparr>is_over := True, fled := True, winner := None\<rparr> else b1)"

definition execute_action ::
  "engine_env \<Rightarrow> battle_state \<Rightarrow> battle_action \<Rightarrow> exn + battle_state" where
  "execute_action env battle action =
     (if action_type action = ''move'' then execute_move env battle action
      else if action_type action = ''switch'' then execute_switch env battle action
      else if action_type action = ''item'' then Inr battle
      else if action_type action = ''flee'' then Inr (execute_flee env battle)
      else Inr battle)"

subsection \<open>End of turn\<close>

definition eot_status_item :: "engine_env \<Rightarrow> side \<times> nat \<Rightarrow> battle_state \<Rightarrow> battle_state" where
  "eot_status_item env si battle =
     (let b1 = (if status_manager (get_pokemon battle (fst si) (snd si)) \<noteq> None
                then map_pokemon (fst si) (snd si) (sm_apply_end_of_turn_effects env) battle
                else battle)
      in if items_db env \<noteq> None
         then map_pokemon (fst si) (snd si) (held_process_end_of_turn env) b1
         else b1)"

definition weather_step ::
  "enhanced_systems \<Rightarrow> string \<Rightarrow> side \<times> nat \<Rightarrow> battle_state \<Rightarrow> battle_state" where
  "weather_step enh w si battle =
     map_pokemon (fst si) (snd si)
       (\<lambda>p. apply_weather_healing enh (apply_weather_damage enh p w) w) battle"

definition weather_phase ::
  "enhanced_systems \<Rightarrow> (side \<times> nat) list \<Rightarrow> battle_state \<Rightarrow> battle_state" where
  "weather_phase enh actives battle =
     (if truthy (weather battle) then
        (let b1 = fold (weather_step enh (the (weather battle))) actives battle;
             b2 = b1\<lparr>weather_turns := weather_turns b1 - 1\<rparr>
         in if weather_turns b2 \<le> 0 then b2\<lparr>weather := None\<rparr> else b2)
      else battle)"

definition terrain_phase :: "battle_state \<Rightarrow> battle_state" where
  "terrain_phase battle =
     (if truthy (terrain battle) then
        (let b1 = battle\<lparr>terrain_turns := terrain_turns battle - 1\<rparr>
         in if terrain_turns b1 \<le> 0 then b1\<lparr>terrain := None\<rparr> else b1)
      else battle)"

text \<open>
  \<^verbatim>\<open>_process_end_of_turn\<close>. The active lists are computed once: the effects in between
  change neither \<open>active_positions\<close> nor the length of a party.
\<close>

definition process_end_of_turn :: "engine_env \<Rightarrow> battle_state \<Rightarrow> exn + battle_state" where
  "process_end_of_turn env battle =
     (case enhanced env of
        None \<Rightarrow> Inr battle
      | Some enh \<Rightarrow>
          (case active_indices (trainer battle) of
             Inl e \<Rightarrow> Inl e
           | Inr ts \<Rightarrow>
              (case active_indices (opponent battle) of
                 Inl e \<Rightarrow> Inl e
               | Inr os \<Rightarrow>
                   let actives = map (Pair Trainer) ts @ map (Pair Opponent) os;
                       b1 = fold (eot_status_item env) actives battle
                   in Inr (terrain_phase (weather_phase enh actives b1)))))"

text \<open>
  \<^verbatim>\<open>auto_switch_if_forced_ai\<close> calls \<^verbatim>\<open>force_switch\<close> with the battle's own id; the registry
  holds every battle under its own id (\<^verbatim>\<open>start_battle\<close> is the only writer), so the lookup
  yields the battle at hand. An error dictionary from \<^verbatim>\<open>force_switch\<close> is dropped.
\<close>

definition auto_switch_if_forced_ai :: "engine_env \<Rightarrow> battle_state \<Rightarrow> exn + battle_state" where
  "auto_switch_if_forced_ai env battle =
     (if phase battle \<noteq> ''FORCED_SWITCH'' \<or> forced_switch_battler_id battle = None
      then Inr battle
      else
        let bt = get_battler battle (side_of battle (the (forced_switch_battler_id battle)))
        in if \<not> is_ai bt then Inr battle
           else
             let idx = (case pending_ai_switch_index battle of
                          Some i \<Rightarrow> Some i
                        | None \<Rightarrow>
                            first_healthy_except
                              (case active_positions bt of [] \<Rightarrow> None | c # _ \<Rightarrow> Some c)
                              (party bt))
             in (case idx of
                   None \<Rightarrow> Inr battle
                 | Some i \<Rightarrow>
                     (case force_switch_battle env battle (battler_id bt) i of
                        Inl e \<Rightarrow> Inl e
                      | Inr (Inl err) \<Rightarrow> Inr battle
                      | Inr (Inr b1) \<Rightarrow> Inr b1)))"

subsection \<open>Turn processing\<close>

definition new_action :: "string \<Rightarrow> int \<Rightarrow> battle_action" where
  "new_action ty bid =
     \<lparr>action_type = ty, action_battler_id = bid, move_id = None, target_position = None,
      mega_evolve = False, switch_to_position = None, item_id = None,
      item_target_position = None, priority = 0, action_speed = 0\<rparr>"

definition generate_ai_action ::
  "engine_env \<Rightarrow> battle_state \<Rightarrow> int \<Rightarrow> exn + (battle_action \<times> nat)" where
  "generate_ai_action env battle bid =
     (let bt = get_battler battle (side_of battle bid)
      in case first_active bt of
           Inl e \<Rightarrow> Inl e
         | Inr i \<Rightarrow>
             let usable_moves = filter (\<lambda>m. 0 < slot_pp m) (moves (party bt ! i))
             in if usable_moves = []
                then Inr ((new_action ''move'' bid)
                            \<lparr>move_id := Some ''struggle'', target_position := Some 0\<rparr>,
                          rng_calls battle)
                else Inr ((new_action ''move'' bid)
                            \<lparr>move_id := Some (slot_move_id
                                 (usable_moves ! (random_choice env (rng_calls battle)
                                                    mod length usable_moves))),
                              target_position := Some 0\<rparr>,
                          Suc (rng_calls battle)))"

definition add_ai_action :: "engine_env \<Rightarrow> side \<Rightarrow> battle_state \<Rightarrow> exn + battle_state" where
  "add_ai_action env s battle =
     (let bt = get_battler battle s
      in if is_ai bt \<and> map_of (pending_actions battle) (battler_id bt) = None then
           (case generate_ai_action env battle (battler_id bt) of
              Inl e \<Rightarrow> Inl e
            | Inr (action, n) \<Rightarrow>
                Inr (battle\<lparr>pending_actions :=
                               dict_set (battler_id bt) action (pending_actions battle),
                            rng_calls := n\<rparr>))
         else Inr battle)"

definition skip_action :: "battle_state \<Rightarrow> battle_action \<Rightarrow> exn + bool" where
  "skip_action battle action =
     (let bt = get_battler battle (side_of battle (action_battler_id action))
      in case active_indices bt of
           Inl e \<Rightarrow> Inl e
         | Inr is \<Rightarrow>
             Inr (is = [] \<or> list_all (\<lambda>i. current_hp (party bt ! i) \<le> 0) is
                  \<or> (phase battle = ''FORCED_SWITCH''
                      \<and> forced_switch_battler_id battle = Some (battler_id bt)
                      \<and> action_type action \<noteq> ''switch'')))"

fun run_actions :: "engine_env \<Rightarrow> battle_action list \<Rightarrow> battle_state \<Rightarrow> exn + battle_state" where
  "run_actions env [] battle = Inr battle"
| "run_actions env (a # as) battle =
     (if is_over battle \<or> wild_dazed battle then Inr battle
      else case skip_action battle a of
             Inl e \<Rightarrow> Inl e
           | Inr True \<Rightarrow> run_actions env as battle
           | Inr False \<Rightarrow>
               (case execute_action env battle a of
                  Inl e \<Rightarrow> Inl e
                | Inr b1 \<Rightarrow> run_actions env as b1))"

definition end_of_turn_stage :: "engine_env \<Rightarrow> battle_state \<Rightarrow> exn + battle_state" where
  "end_of_turn_stage env battle =
     (if wild_dazed battle then Inr battle
      else case process_end_of_turn env battle of
             Inl e \<Rightarrow> Inl e
           | Inr b1 \<Rightarrow> auto_switch_if_forced_ai env b1)"

definition finish_turn :: "battle_state \<Rightarrow> battle_state" where
  "finish_turn battle =
     (check_battle_end battle)\<lparr>pending_actions := [],
                               turn_number := turn_number (check_battle_end battle) + 1\<rparr>"

definition process_turn_battle :: "engine_env \<Rightarrow> battle_state \<Rightarrow> exn + battle_state" where
  "process_turn_battle env battle =
     (case add_ai_action env Trainer battle of
        Inl e \<Rightarrow> Inl e
      | Inr b1 \<Rightarrow>
         (case add_ai_action env Opponent b1 of
            Inl e \<Rightarrow> Inl e
          | Inr b2 \<Rightarrow>
             (case sort_actions env b2 (map snd (pending_actions b2)) of
                Inl e \<Rightarrow> Inl e
              | Inr actions \<Rightarrow>
                 (case run_actions env actions b2 of
                    Inl e \<Rightarrow> Inl e
                  | Inr b3 \<Rightarrow>
                     (case end_of_turn_stage env b3 of
                        Inl e \<Rightarrow> Inl e
                      | Inr b4 \<Rightarrow> Inr (finish_turn b4))))))"

definition process_turn ::
  "engine_env \<Rightarrow> registry \<Rightarrow> string \<Rightarrow> exn + (error + unit) \<times> registry" where
  "process_turn env reg bid =
     (case reg bid of
        None \<Rightarrow> Inr (Inl BattleNotFound, reg)
      | Some battle \<Rightarrow>
          (case process_turn_battle env battle of
             Inl e \<Rightarrow> Inl e
           | Inr b1 \<Rightarrow> Inr (Inr (), reg(bid \<mapsto> b1))))"

subsection \<open>Action registration\<close>

definition register_action_battle ::
  "battle_state \<Rightarrow> int \<Rightarrow> battle_action \<Rightarrow> (error + unit) \<times> battle_state" where
  "register_action_battle battle bid action =
     (if phase battle = ''FORCED_SWITCH'' \<and> forced_switch_battler_id battle = Some bid
         \<and> action_type action \<noteq> ''switch''
      then (Inl MustSwitch, battle)
      else if phase battle = ''FORCED_SWITCH'' \<and> forced_switch_battler_id battle \<noteq> Some bid
      then (Inl WaitingForSwitch, battle)
      else
        let b1 = (if phase battle = ''FORCED_SWITCH''
                  then battle\<lparr>phase := ''WAITING_ACTIONS'', forced_switch_battler_id := None\<rparr>
                  else battle)
        in if is_over b1 then (Inl BattleOver, b1)
           else if bid \<noteq> battler_id (trainer b1) \<and> bid \<noteq> battler_id (opponent b1)
           then (Inl InvalidBattler, b1)
           else (Inr (), b1\<lparr>pending_actions := dict_set bid action (pending_actions b1)\<rparr>))"

definition register_action ::
  "registry \<Rightarrow> string \<Rightarrow> int \<Rightarrow> battle_action \<Rightarrow> (error + unit) \<times> registry" where
  "register_action reg bid battler action =
     (case reg bid of
        None \<Rightarrow> (Inl BattleNotFound, reg)
      | Some battle \<Rightarrow>
          (let r = register_action_battle battle battler action
           in (fst r, reg(bid \<mapsto> snd r))))"

subsection \<open>Battle initialisation\<close>

text \<open>
  \<^verbatim>\<open>_trigger_entry_abilities\<close> runs inside \<^verbatim>\<open>try/except Exception\<close> in \<^verbatim>\<open>start_battle\<close>: an
  exception stops the hooks and is dropped, and what was written before it stays. The
  Boolean of \<open>entry_hooks\<close> is false when an exception stopped it.
\<close>

fun entry_hooks ::
  "engine_env \<Rightarrow> enhanced_systems \<Rightarrow> (side \<times> nat) list \<Rightarrow> battle_state
   \<Rightarrow> bool \<times> battle_state" where
  "entry_hooks env enh [] battle = (True, battle)"
| "entry_hooks env enh (si # rest) battle =
     (let b1 = trigger_on_entry enh battle (fst si) (snd si)
      in case apply_entry_hazards env b1 (fst si) (snd si) of
           Inl e \<Rightarrow>
             (False, hazards_before_web env (side_hazards b1 (fst si)) b1 (fst si) (snd si))
         | Inr b2 \<Rightarrow> entry_hooks env enh rest b2)"

definition trigger_entry_abilities :: "engine_env \<Rightarrow> battle_state \<Rightarrow> battle_state" where
  "trigger_entry_abilities env battle =
     (case enhanced env of
        None \<Rightarrow> battle
      | Some enh \<Rightarrow>
          (case active_indices (trainer battle) of
             Inl e \<Rightarrow> battle
           | Inr ts \<Rightarrow>
               let r = entry_hooks env enh (map (Pair Trainer) ts) battle
               in if \<not> fst r then snd r
                  else (case active_indices (opponent (snd r)) of
                          Inl e \<Rightarrow> snd r
                        | Inr os \<Rightarrow>
                            snd (entry_hooks env enh (map (Pair Opponent) os) (snd r)))))"

text \<open>
  \<^verbatim>\<open>start_battle\<close>. \<open>new_id\<close> is the fresh \<^verbatim>\<open>uuid4\<close>, \<open>rand_id\<close> the result of
  \<^verbatim>\<open>random.randint(1000, 9999)\<close>, \<open>n\<close> the number of draws made so far. The \<open>battle_state\<close>
  is built with the defaults of the dataclass: in particular \<open>phase\<close> is \<open>START\<close>, and
  nothing in \<^verbatim>\<open>start_battle\<close> assigns it.
\<close>

definition start_battle ::
  "engine_env \<Rightarrow> registry \<Rightarrow> string \<Rightarrow> int \<Rightarrow> nat \<Rightarrow> int \<Rightarrow> string \<Rightarrow> pokemon list
   \<Rightarrow> pokemon list \<Rightarrow> BattleType \<Rightarrow> BattleFormat \<Rightarrow> int option \<Rightarrow> string option \<Rightarrow> bool
   \<Rightarrow> bool \<Rightarrow> string option \<Rightarrow> int \<Rightarrow> exn + string \<times> registry" where
  "start_battle env reg new_id rand_id n trainer_id trainer_name trainer_party opponent_party
     ty fmt opponent_id opponent_name opponent_is_ai ranked npc_class prize =
     (if trainer_party = [] then Inl ValueError
      else if opponent_party = [] then Inl ValueError
      else
        let active_slot_count = (if fmt = DOUBLES then 2 else 1);
            trainer_active = map int (upt 0 (min (length trainer_party) active_slot_count));
            opponent_active = map int (upt 0 (min (length opponent_party) active_slot_count));
            t = \<lparr>battler_id = trainer_id, battler_name = trainer_name,
                 party = trainer_party,
                 active_positions = (if trainer_active = [] then [0] else trainer_active),
                 is_ai = False, can_switch = True, can_use_items = True,
                 can_flee = (ty = WILD), trainer_class = None, prize_money = 0\<rparr>;
            oid = (case opponent_id of
                     Some v \<Rightarrow> v
                   | None \<Rightarrow> if ty = WILD then - 1 else - rand_id);
            opp = \<lparr>battler_id = oid,
                   battler_name = (if truthy opponent_name then the opponent_name
                                   else if ty = WILD then ''Wild Pok'' @ [CHR 0xC3, CHR 0xA9] @ ''mon''
                                   else ''Opponent''),
                   party = opponent_party,
                   active_positions = (if opponent_active = [] then [0] else opponent_active),
                   is_ai = opponent_is_ai, can_switch = (ty \<noteq> WILD),
                   can_use_items = (ty = TRAINER), can_flee = False,
                   trainer_class = npc_class, prize_money = prize\<rparr>;
            b0 = \<lparr>battle_id = new_id, battle_type = ty, battle_format = fmt,
                  trainer = t, opponent = opp, turn_number = 1, phase = ''START'',
                  forced_switch_battler_id = None, is_over = False, winner = None,
                  fled = False, weather = None, weather_turns = 0, terrain = None,
                  terrain_turns = 0, trainer_hazards = [], opponent_hazards = [],
                  trainer_screens = [], opponent_screens = [], pending_actions = [],
                  pending_ai_switch_index = None, catch_attempted = False,
                  wild_dazed = False, is_ranked = ranked, ruleset = None,
                  rng_calls = (if opponent_id = None \<and> ty \<noteq> WILD then Suc n else n)\<rparr>;
            b1 = trigger_entry_abilities env b0;
            b2 = b1\<lparr>ruleset := Some (case resolve_default_ruleset env ''nat'' of
                                       None \<Rightarrow> ''standardnatdex''
                                     | Some r \<Rightarrow> r)\<rparr>
        in Inr (new_id, reg(new_id \<mapsto> b2)))"

subsection \<open>Order of actions\<close>

text \<open>
  Position of an element in a list, and the order it induces. \<open>spec_action_key\<close> is the
  key as the specification words it (class, effective speed of the acting combatant);
  \<open>scheduler_key\<close> is the key \<^verbatim>\<open>get_action_priority\<close> computes when it does not raise.
\<close>

definition index_of :: "'a list \<Rightarrow> 'a \<Rightarrow> nat" where
  "index_of xs x = length (takeWhile (\<lambda>y. y \<noteq> x) xs)"

definition precedes :: "'a list \<Rightarrow> 'a \<Rightarrow> 'a \<Rightarrow> bool" where
  "precedes xs a b = (index_of xs a < index_of xs b)"

definition before_key :: "('a \<Rightarrow> 'k::linorder) \<Rightarrow> 'a list \<Rightarrow> 'a \<Rightarrow> 'a \<Rightarrow> bool" where
  "before_key f xs a b = (f b < f a \<or> (f a = f b \<and> index_of xs a < index_of xs b))"

definition action_class :: "engine_env \<Rightarrow> battle_action \<Rightarrow> int" where
  "action_class env a =
     (if action_type a = ''switch'' then 100
      else if action_type a = ''item'' then 90
      else if action_type a = ''move'' then
        (case moves_db env (move_id a) of
           None \<Rightarrow> 0
         | Some md \<Rightarrow> (case md_priority md of None \<Rightarrow> 0 | Some v \<Rightarrow> v))
      else 0)"

definition acting_speed :: "engine_env \<Rightarrow> battle_state \<Rightarrow> battle_action \<Rightarrow> int" where
  "acting_speed env battle a =
     (let bt = get_battler battle (side_of battle (action_battler_id a))
      in case first_active bt of
           Inl e \<Rightarrow> 0
         | Inr i \<Rightarrow> get_effective_speed env (party bt ! i))"

definition spec_action_key :: "engine_env \<Rightarrow> battle_state \<Rightarrow> battle_action \<Rightarrow> int \<times> int" where
  "spec_action_key env battle a = (action_class env a, acting_speed env battle a)"

definition scheduler_key :: "engine_env \<Rightarrow> battle_state \<Rightarrow> battle_action \<Rightarrow> int \<times> int" where
  "scheduler_key env battle a =
     (action_class env a,
      if action_type a = ''switch'' \<or> action_type a = ''item'' then 999
      else if action_type a = ''move'' then acting_speed env battle a
      else 0)"

subsection \<open>Specification-side definitions\<close>


definition spec_focus_applies :: "engine_env \<Rightarrow> pokemon \<Rightarrow> int \<Rightarrow> bool" where
  "spec_focus_applies env defender damage =
     (current_hp defender \<le> damage \<and> 1 < current_hp defender
      \<and> (case get_item env defender of
            None \<Rightarrow> False
          | Some it \<Rightarrow>
              (prevents_ko (item_effect_data it) \<or> requires_full_hp (item_effect_data it)
               \<or> activation_chance (item_effect_data it) \<noteq> None)
              \<and> (if requires_full_hp (item_effect_data it)
                   then max_hp defender \<le> current_hp defender else True)))"

text \<open>
  The number of the four outcomes that hold of a battle; the specification says it is 1
  after every turn.
\<close>

definition spec_turn_outcomes :: "battle_state \<Rightarrow> nat" where
  "spec_turn_outcomes b =
     length (filter id [is_over b, phase b = ''FORCED_SWITCH'', phase b = ''DAZED'',
                        phase b = ''WAITING_ACTIONS''])"

section \<open>Example data\<close>

definition mk_pokemon :: "string \<Rightarrow> int \<Rightarrow> int \<Rightarrow> int \<Rightarrow> move_slot list \<Rightarrow> pokemon" where
  "mk_pokemon name hp mx spd ms =
     \<lparr>species_name = name, current_hp = hp, max_hp = mx, speed = spd, moves = ms,
      held_item = None, consumed_items = [], choice_locked_move = None,
      species_data = Some [''normal''], ability = None, ability_name = None,
      status_manager = None, stat_stages = None\<rparr>"

definition mk_battler :: "int \<Rightarrow> string \<Rightarrow> pokemon list \<Rightarrow> bool \<Rightarrow> battler" where
  "mk_battler bid name ps ai =
     \<lparr>battler_id = bid, battler_name = name, party = ps, active_positions = [0],
      is_ai = ai, can_switch = True, can_use_items = True, can_flee = False,
      trainer_class = None, prize_money = 0\<rparr>"

definition mk_battle :: "BattleType \<Rightarrow> battler \<Rightarrow> battler \<Rightarrow> battle_state" where
  "mk_battle ty t opp =
     \<lparr>battle_id = ''b1'', battle_type = ty, battle_format = SINGLES,
      trainer = t, opponent = opp, turn_number = 1, phase = ''START'',
      forced_switch_battler_id = None, is_over = False, winner = None, fled = False,
      weather = None, weather_turns = 0, terrain = None, terrain_turns = 0,
      trainer_hazards = [], opponent_hazards = [], trainer_screens = [],
      opponent_screens = [], pending_actions = [], pending_ai_switch_index = None,
      catch_attempted = False, wild_dazed = False, is_ranked = False,
      ruleset = Some ''standardnatdex'', rng_calls = 0\<rparr>"

definition tackle_slot :: move_slot where
  "tackle_slot = \<lparr>slot_move_id = ''tackle'', slot_pp = 35\<rparr>"

definition with_status_manager :: "pokemon \<Rightarrow> pokemon" where
  "with_status_manager p =
     p\<lparr>status_manager := Some \<lparr>volatile_statuses = [], major_status = None\<rparr>\<rparr>"

definition set_major_status :: "pokemon \<Rightarrow> string \<Rightarrow> pokemon" where
  "set_major_status p st =
     p\<lparr>status_manager := map_option (\<lambda>sm. sm\<lparr>major_status := Some st\<rparr>) (status_manager p)\<rparr>"

definition no_major_status :: "pokemon \<Rightarrow> string \<Rightarrow> bool" where
  "no_major_status p st =
     (case status_manager p of None \<Rightarrow> False | Some sm \<Rightarrow> major_status sm = None)"

definition basic_moves_db :: "string option \<Rightarrow> move_data option" where
  "basic_moves_db mid =
     (if mid = Some ''tackle''
      then Some \<lparr>md_id = Some ''tackle'', md_move_id = None, md_name = ''Tackle'',
                 md_type = Some ''normal'', md_category = Some ''physical'',
                 md_priority = Some 0\<rparr>
      else if mid = Some ''quick-attack''
      then Some \<lparr>md_id = Some ''quick-attack'', md_move_id = None, md_name = ''Quick Attack'',
                 md_type = Some ''normal'', md_category = Some ''physical'',
                 md_priority = Some 1\<rparr>
      else None)"

definition basic_env :: engine_env where
  "basic_env =
     \<lparr>moves_db = basic_moves_db, type_chart = (\<lambda>t. None), items_db = None, enhanced = None,
      is_move_allowed = (\<lambda>m r. True),
      resolve_default_ruleset = (\<lambda>t. Some ''standardnatdex''), sm_can_move = (\<lambda>p. (True, p)),
      sm_can_apply_status = no_major_status, sm_apply_status = set_major_status,
      sm_apply_end_of_turn_effects = (\<lambda>p. p), random_random = (\<lambda>n. 0),
      random_choice = (\<lambda>n. 0)\<rparr>"

definition duel :: battle_state where
  "duel = mk_battle PVP
     (mk_battler 1 ''Ash'' [mk_pokemon ''Pikachu'' 35 35 50 [tackle_slot],
                            mk_pokemon ''Bulbasaur'' 45 45 45 [tackle_slot]] False)
     (mk_battler 2 ''Gary'' [mk_pokemon ''Eevee'' 55 55 100 [tackle_slot],
                             mk_pokemon ''Squirtle'' 44 44 43 [tackle_slot]] False)"

definition switch_to :: "int \<Rightarrow> int \<Rightarrow> battle_action" where
  "switch_to bid pos = (new_action ''switch'' bid)\<lparr>switch_to_position := Some pos\<rparr>"

definition use_move :: "int \<Rightarrow> string \<Rightarrow> battle_action" where
  "use_move bid m = (new_action ''move'' bid)\<lparr>move_id := Some m, target_position := Some 0\<rparr>"




definition no_effect :: effect_data where
  "no_effect =
     \<lparr>blocks_status_moves = False, locks_move = False, effect_type = None,
      power_multiplier = None, effect_stat = None, multiplier = None, prevents_ko = False,
      requires_full_hp = False, activation_chance = None, one_time_use = False,
      recoil_percent = None, heal_percent = None\<rparr>"

definition focus_band :: item where
  "focus_band =
     \<lparr>item_ident = ''focus-band'', item_trigger = Some ''before_damage'',
      item_effect_data = no_effect\<lparr>activation_chance := Some (1 / 10)\<rparr>\<rparr>"

definition focus_sash :: item where
  "focus_sash =
     \<lparr>item_ident = ''focus-sash'', item_trigger = Some ''before_damage'',
      item_effect_data = no_effect\<lparr>prevents_ko := True, requires_full_hp := True,
                                   one_time_use := True\<rparr>\<rparr>"

definition life_orb :: item where
  "life_orb =
     \<lparr>item_ident = ''life-orb'', item_trigger = None,
      item_effect_data = no_effect\<lparr>power_multiplier := Some (13 / 10),
                                   recoil_percent := Some 10\<rparr>\<rparr>"

definition choice_scarf :: item where
  "choice_scarf =
     \<lparr>item_ident = ''choice-scarf'', item_trigger = None,
      item_effect_data = no_effect\<lparr>locks_move := True, effect_stat := Some ''speed'',
                                   multiplier := Some (3 / 2)\<rparr>\<rparr>"

definition speed_charm :: item where
  "speed_charm =
     \<lparr>item_ident = ''speed-charm'', item_trigger = None,
      item_effect_data = no_effect\<lparr>effect_stat := Some ''speed'',
                                   multiplier := Some (11 / 10)\<rparr>\<rparr>"

definition basic_items_db :: "string \<Rightarrow> item option" where
  "basic_items_db i =
     (if i = ''focus-band'' then Some focus_band
      else if i = ''focus-sash'' then Some focus_sash
      else if i = ''life-orb'' then Some life_orb
      else if i = ''choice-scarf'' then Some choice_scarf
      else if i = ''speed-charm'' then Some speed_charm
      else None)"

definition item_env :: engine_env where
  "item_env = basic_env\<lparr>items_db := Some basic_items_db, random_random := (\<lambda>n. 1 / 2)\<rparr>"

definition holding :: "string \<Rightarrow> pokemon \<Rightarrow> pokemon" where
  "holding i p = p\<lparr>held_item := Some i\<rparr>"

definition toxic_field :: battle_state where
  "toxic_field = (mk_battle TRAINER
     (mk_battler 1 ''Ash'' [mk_pokemon ''Pikachu'' 35 35 50 [tackle_slot],
                            with_status_manager (mk_pokemon ''Snorlax'' 100 100 30 [tackle_slot]),
                            (mk_pokemon ''Grimer'' 80 80 25 [tackle_slot])
                              \<lparr>species_data := Some [''Poison'']\<rparr>] False)
     (mk_battler (- 7) ''Gary'' [mk_pokemon ''Eevee'' 55 55 100 [tackle_slot]] True))
     \<lparr>trainer_hazards := [(''toxic_spikes'', 2)]\<rparr>"

definition simple_enhanced :: enhanced_systems where
  "simple_enhanced =
     \<lparr>calculate_damage_with_effects = (\<lambda>b sa ai di m. (20, 1, b)),
      get_speed = (\<lambda>p. Some (speed p)),
      trigger_on_entry = (\<lambda>b s i. b),
      apply_weather_damage = (\<lambda>p w. p),
      apply_weather_healing = (\<lambda>p w. p)\<rparr>"

definition enhanced_env :: engine_env where
  "enhanced_env = basic_env\<lparr>enhanced := Some simple_enhanced\<rparr>"

definition registry_of :: "battle_state \<Rightarrow> registry" where
  "registry_of b = (\<lambda>k. if k = battle_id b then Some b else None)"

definition doubles_duel :: battle_state where
  "doubles_duel =
     duel\<lparr>battle_format := DOUBLES,
          trainer := (trainer duel)\<lparr>active_positions := [0, 1]\<rparr>,
          opponent := (opponent duel)\<lparr>active_positions := [0, 1]\<rparr>\<rparr>"

text \<open>
  Whole turns, from \<^verbatim>\<open>start_battle\<close> through \<^verbatim>\<open>register_action\<close> to \<^verbatim>\<open>process_turn\<close>:
  a trainer battle between two humans, and a wild battle in which the trainer attacks
  with \<open>tackle\<close>. \<open>after_turn\<close> reads the battle back from the registry.
\<close>

definition first_turn :: "exn + (error + unit) \<times> registry" where
  "first_turn =
     (case start_battle basic_env Map.empty ''b1'' 1234 0 1 ''Ash''
             [mk_pokemon ''Pikachu'' 35 35 90 [tackle_slot]]
             [mk_pokemon ''Eevee'' 55 55 55 [tackle_slot]]
             PVP SINGLES (Some 2) (Some ''Gary'') False False None 0 of
        Inl e \<Rightarrow> Inl e
      | Inr (bid, reg1) \<Rightarrow>
          let reg2 = snd (register_action reg1 bid 1 (use_move 1 ''tackle''));
              reg3 = snd (register_action reg2 bid 2 (use_move 2 ''tackle''))
          in process_turn basic_env reg3 bid)"

definition wild_turn :: "engine_env \<Rightarrow> pokemon \<Rightarrow> pokemon \<Rightarrow> exn + (error + unit) \<times> registry" where
  "wild_turn env mine wild =
     (case start_battle env Map.empty ''w1'' 1234 0 1 ''Ash'' [mine] [wild]
             WILD SINGLES None None True False None 0 of
        Inl e \<Rightarrow> Inl e
      | Inr (bid, reg1) \<Rightarrow>
          process_turn env (snd (register_action reg1 bid 1 (use_move 1 ''tackle''))) bid)"

definition after_turn :: "exn + (error + unit) \<times> registry \<Rightarrow> string \<Rightarrow> battle_state option" where
  "after_turn r bid =
     (case r of
        Inl e \<Rightarrow> None
      | Inr res \<Rightarrow> (case fst res of Inl err \<Rightarrow> None | Inr u \<Rightarrow> snd res bid))"

definition faint_duel :: battle_state where
  "faint_duel =
     (map_pokemon Trainer 0 (\<lambda>p. p\<lparr>current_hp := 5\<rparr>) duel)
       \<lparr>pending_actions := [(1, use_move 1 ''tackle''), (2, use_move 2 ''tackle'')]\<rparr>"

definition wild_ko :: battle_state where
  "wild_ko = mk_battle WILD
     (mk_battler 1 ''Ash'' [mk_pokemon ''Pikachu'' 35 35 90 [tackle_slot]] False)
     (mk_battler (- 1) ''Wild Rattata'' [mk_pokemon ''Rattata'' 0 30 50 [tackle_slot]] True)"

text \<open>
  An engine with held items and a calculator whose \<^verbatim>\<open>get_speed\<close> halves the speed of a
  paralysed combatant, and a duel between a scarf holder and a faster, paralysed opponent.
\<close>

definition paralysis_halves :: "pokemon \<Rightarrow> int option" where
  "paralysis_halves p =
     Some (case status_manager p of
             None \<Rightarrow> speed p
           | Some sm \<Rightarrow> if major_status sm = Some ''par'' then speed p div 2 else speed p)"

definition scarf_env :: engine_env where
  "scarf_env = item_env\<lparr>enhanced := Some (simple_enhanced\<lparr>get_speed := paralysis_halves\<rparr>)\<rparr>"

definition scarf_duel :: battle_state where
  "scarf_duel = mk_battle PVP
     (mk_battler 1 ''Ash''
        [holding ''choice-scarf'' (mk_pokemon ''Pikachu'' 35 35 60 [tackle_slot])] False)
     (mk_battler 2 ''Gary''
        [set_major_status (with_status_manager (mk_pokemon ''Eevee'' 55 55 150 [tackle_slot]))
           ''par''] False)"

definition steel_poison_field :: battle_state where
  "steel_poison_field = (mk_battle TRAINER
     (mk_battler 1 ''Ash'' [mk_pokemon ''Pikachu'' 35 35 50 [tackle_slot],
                            with_status_manager
                              ((mk_pokemon ''Revavroom'' 80 80 90 [tackle_slot])
                                 \<lparr>species_data := Some [''Steel'', ''Poison'']\<rparr>)] False)
     (mk_battler (- 7) ''Gary'' [mk_pokemon ''Eevee'' 55 55 100 [tackle_slot]] True))
     \<lparr>trainer_hazards := [(''stealth_rock'', 1), (''toxic_spikes'', 2)]\<rparr>"

text \<open>
  A doubles battle with two active combatants on each side, and the same battle with the
  trainer's first active combatant fainted and a forced switch pending.
\<close>

definition doubles3 :: battle_state where
  "doubles3 = (mk_battle PVP
     ((mk_battler 1 ''Ash'' [mk_pokemon ''Pikachu'' 35 35 50 [tackle_slot],
                             mk_pokemon ''Bulbasaur'' 45 45 45 [tackle_slot],
                             mk_pokemon ''Charmander'' 39 39 65 [tackle_slot]] False)
        \<lparr>active_positions := [0, 1]\<rparr>)
     ((mk_battler 2 ''Gary'' [mk_pokemon ''Eevee'' 55 55 100 [tackle_slot],
                              mk_pokemon ''Squirtle'' 44 44 43 [tackle_slot]] False)
        \<lparr>active_positions := [0, 1]\<rparr>))
     \<lparr>battle_format := DOUBLES\<rparr>"

definition forced3 :: battle_state where
  "forced3 =
     (map_pokemon Trainer 0 (\<lambda>p. p\<lparr>current_hp := 0\<rparr>) doubles3)
       \<lparr>phase := ''FORCED_SWITCH'', forced_switch_battler_id := Some 1\<rparr>"

text \<open>
  What is read off a battle after a turn, the battle \<^verbatim>\<open>start_battle\<close> and
  \<^verbatim>\<open>register_action\<close> leave in the registry for the wild battle of \<open>wild_turn\<close>, and the
  states of the turn in which a life-orb holder at 1 HP attacks a wild combatant.
\<close>

definition daze_report :: "battle_state \<Rightarrow> int \<times> bool \<times> string \<times> bool \<times> string option" where
  "daze_report b =
     (current_hp (get_pokemon b Opponent 0), wild_dazed b, phase b, is_over b, winner b)"

definition outcome_report :: "battle_state \<Rightarrow> bool \<times> string \<times> nat" where
  "outcome_report b = (is_over b, phase b, spec_turn_outcomes b)"

definition started_wild :: "engine_env \<Rightarrow> pokemon \<Rightarrow> pokemon \<Rightarrow> battle_state option" where
  "started_wild env mine wild =
     (case start_battle env Map.empty ''w1'' 1234 0 1 ''Ash'' [mine] [wild]
             WILD SINGLES None None True False None 0 of
        Inl e \<Rightarrow> None
      | Inr (bid, reg1) \<Rightarrow> snd (register_action reg1 bid 1 (use_move 1 ''tackle'')) bid)"

definition recoil_start :: battle_state where
  "recoil_start = the (started_wild item_env (holding ''life-orb'' (mk_pokemon ''Pikachu'' 1 10 90 [tackle_slot])) (mk_pokemon ''Rattata'' 5 30 50 [tackle_slot]))"

definition recoil_ai :: battle_state where
  "recoil_ai =
     recoil_start\<lparr>pending_actions := [(1, use_move 1 ''tackle''), (- 1, use_move (- 1) ''tackle'')],
                  rng_calls := 1\<rparr>"

definition tackle_md :: move_data where
  "tackle_md = the (basic_moves_db (Some ''tackle''))"

definition recoil_hit :: battle_state where
  "recoil_hit = resolve_hit item_env recoil_ai (use_move 1 ''tackle'') Trainer 0 Opponent 0 tackle_md"

section \<open>Terminal check: results\<close>

lemma has_usable_pokemon_iff:
  "has_usable_pokemon b \<longleftrightarrow> (\<exists>p \<in> set (party b). current_hp p > 0)"
  by (simp add: has_usable_pokemon_def list_ex_iff)

text \<open>
  Claim C2. The terminal check sets \<open>is_over\<close> and assigns \<open>winner\<close> exactly when at least
  one side has no party member with \<open>current_hp > 0\<close>: draw when neither side is usable,
  \<open>opponent\<close> when only the opponent is, \<open>trainer\<close> when only the trainer is. When both sides
  are usable the state is returned as it was; no other field is ever touched.
\<close>

theorem check_battle_end_terminal:
  fixes b :: battle_state
  defines "tu \<equiv> (\<exists>p \<in> set (party (trainer b)). current_hp p > 0)"
      and "ou \<equiv> (\<exists>p \<in> set (party (opponent b)). current_hp p > 0)"
  shows "is_over (check_battle_end b) = (if tu \<and> ou then is_over b else True)
       \<and> winner (check_battle_end b) =
           (if tu \<and> ou then winner b
            else if \<not> tu \<and> \<not> ou then Some ''draw''
            else if ou then Some ''opponent'' else Some ''trainer'')
       \<and> check_battle_end b =
           b\<lparr>is_over := is_over (check_battle_end b), winner := winner (check_battle_end b)\<rparr>"
  unfolding tu_def ou_def
  by (simp add: check_battle_end_def Let_def has_usable_pokemon_iff)

theorem check_battle_end_terminal_witness:
  "is_over (check_battle_end (mk_battle TRAINER
       (mk_battler 1 ''Ash'' [mk_pokemon ''Pikachu'' 0 35 90 []] False)
       (mk_battler (-2) ''Gary'' [mk_pokemon ''Eevee'' 12 40 55 []] True)))
   \<and> winner (check_battle_end (mk_battle TRAINER
       (mk_battler 1 ''Ash'' [mk_pokemon ''Pikachu'' 0 35 90 []] False)
       (mk_battler (-2) ''Gary'' [mk_pokemon ''Eevee'' 12 40 55 []] True))) = Some ''opponent''"
  using check_battle_end_terminal [of "mk_battle TRAINER
       (mk_battler 1 ''Ash'' [mk_pokemon ''Pikachu'' 0 35 90 []] False)
       (mk_battler (-2) ''Gary'' [mk_pokemon ''Eevee'' 12 40 55 []] True)"]
  by (simp add: mk_battle_def mk_battler_def mk_pokemon_def)

section \<open>Scheduler: results\<close>

lemmas ex_defs = basic_env_def basic_moves_db_def duel_def mk_battle_def mk_battler_def
  mk_pokemon_def tackle_slot_def switch_to_def use_move_def new_action_def

lemmas sched_defs = sort_actions_def get_action_priority_def sort_desc_def get_battler_def
  side_of_def first_active_def active_indices_def get_effective_speed_def
  scheduler_key_def spec_action_key_def action_class_def acting_speed_def precedes_def index_of_def

lemma index_of_Cons: "index_of (y # ys) x = (if y = x then 0 else Suc (index_of ys x))"
  by (simp add: index_of_def)

lemma index_of_nth: "distinct xs \<Longrightarrow> i < length xs \<Longrightarrow> index_of xs (xs ! i) = i"
proof (induction xs arbitrary: i)
  case Nil then show ?case by simp
next
  case (Cons y ys)
  show ?case
  proof (cases i)
    case 0 then show ?thesis by (simp add: index_of_Cons)
  next
    case (Suc j)
    with Cons.prems have "ys ! j \<in> set ys" "y \<notin> set ys" by auto
    then have "y \<noteq> ys ! j" by auto
    with Cons Suc show ?thesis by (simp add: index_of_Cons)
  qed
qed

lemma index_of_less: "x \<in> set xs \<Longrightarrow> index_of xs x < length xs"
  by (induction xs) (auto simp: index_of_Cons)

lemma nth_index_of: "x \<in> set xs \<Longrightarrow> xs ! index_of xs x = x"
  by (induction xs) (auto simp: index_of_Cons)

lemma set_insert_desc: "set (insert_desc f x ys) = insert x (set ys)"
  by (induction ys) auto

lemma set_sort_desc: "set (sort_desc f xs) = set xs"
  by (induction xs) (auto simp: sort_desc_def set_insert_desc)

lemma distinct_insert_desc: "distinct (insert_desc f x ys) = (x \<notin> set ys \<and> distinct ys)"
  by (induction ys) (auto simp: set_insert_desc)

lemma distinct_sort_desc: "distinct (sort_desc f xs) = distinct xs"
  by (induction xs) (auto simp: sort_desc_def distinct_insert_desc set_sort_desc[unfolded sort_desc_def])

lemma length_insert_desc: "length (insert_desc f x ys) = Suc (length ys)"
  by (induction ys) auto

lemma length_sort_desc: "length (sort_desc f xs) = length xs"
  by (induction xs) (auto simp: sort_desc_def length_insert_desc)

lemma sorted_wrt_insert_desc:
  assumes "sorted_wrt (before_key f xs) ys" "x \<notin> set xs" "set ys \<subseteq> set xs"
  shows "sorted_wrt (before_key f (x # xs)) (insert_desc f x ys)"
  using assms
proof (induction ys)
  case Nil then show ?case by simp
next
  case (Cons y ys)
  have shift: "\<And>a b. a \<in> set xs \<Longrightarrow> b \<in> set xs \<Longrightarrow> before_key f xs a b \<Longrightarrow> before_key f (x # xs) a b"
    using Cons.prems(2) by (auto simp: before_key_def index_of_Cons)
  have sw: "sorted_wrt (before_key f (x # xs)) (y # ys)"
    using Cons.prems(1,3) shift
    by (metis (no_types, lifting) sorted_wrt_mono_rel subsetD)
  show ?case
  proof (cases "f y \<le> f x")
    case True
    have "\<forall>z \<in> set (y # ys). before_key f (x # xs) x z"
    proof
      fix z assume z: "z \<in> set (y # ys)"
      then have "z \<in> set xs" using Cons.prems(3) by auto
      then have zx: "z \<noteq> x" using Cons.prems(2) by auto
      have "f z \<le> f y" using z Cons.prems(1) by (auto simp: before_key_def)
      then have "f z \<le> f x" using True by simp
      then show "before_key f (x # xs) x z" using zx by (auto simp: before_key_def index_of_Cons)
    qed
    then show ?thesis using True sw by simp
  next
    case False
    then have "before_key f (x # xs) y x" by (auto simp: before_key_def)
    moreover have "sorted_wrt (before_key f (x # xs)) (insert_desc f x ys)"
      using Cons by auto
    moreover have "\<forall>z \<in> set ys. before_key f (x # xs) y z" using sw by simp
    ultimately show ?thesis using False by (auto simp: set_insert_desc)
  qed
qed

lemma sorted_wrt_sort_desc:
  "distinct xs \<Longrightarrow> sorted_wrt (before_key f xs) (sort_desc f xs)"
proof (induction xs)
  case Nil then show ?case by (simp add: sort_desc_def)
next
  case (Cons x xs)
  then have "sorted_wrt (before_key f xs) (sort_desc f xs)" by simp
  from sorted_wrt_insert_desc[OF this, of x] Cons.prems
  show ?case by (simp add: sort_desc_def set_sort_desc[unfolded sort_desc_def])
qed

lemma before_key_asym: "before_key f xs a b \<Longrightarrow> \<not> before_key f xs b a"
  by (auto simp: before_key_def)

lemma precedes_sorted_wrt:
  assumes sw: "sorted_wrt R ys" and d: "distinct ys" and asym: "\<And>a b. R a b \<Longrightarrow> \<not> R b a"
      and a: "a \<in> set ys" and b: "b \<in> set ys" and ne: "a \<noteq> b"
  shows "precedes ys a b \<longleftrightarrow> R a b"
proof -
  let ?i = "index_of ys a" and ?j = "index_of ys b"
  have i: "?i < length ys" "ys ! ?i = a" using a by (simp_all add: index_of_less nth_index_of)
  have j: "?j < length ys" "ys ! ?j = b" using b by (simp_all add: index_of_less nth_index_of)
  have neq: "?i \<noteq> ?j" using i j ne by auto
  have fwd: "?i < ?j \<Longrightarrow> R a b"
    using sorted_wrt_nth_less[OF sw, of ?i ?j] i j by simp
  have bwd: "?j < ?i \<Longrightarrow> R b a"
    using sorted_wrt_nth_less[OF sw, of ?j ?i] i j by simp
  show ?thesis unfolding precedes_def using fwd bwd asym neq
    by (metis linorder_neqE_nat)
qed

lemma sort_desc_order:
  assumes "distinct xs" "a \<in> set xs" "b \<in> set xs" "a \<noteq> b"
  shows "precedes (sort_desc f xs) a b \<longleftrightarrow> before_key f xs a b"
  using precedes_sorted_wrt[OF sorted_wrt_sort_desc[OF assms(1), of f], of a b] assms
  by (simp add: distinct_sort_desc set_sort_desc before_key_asym)

lemma get_action_priority_key:
  "get_action_priority env battle a = Inr k \<Longrightarrow> k = scheduler_key env battle a"
  by (auto simp: get_action_priority_def scheduler_key_def action_class_def acting_speed_def
        Let_def split: if_splits option.splits sum.splits)

lemma keyed_Inr:
  "keyed f xs = Inr ks \<Longrightarrow> (\<forall>x \<in> set xs. f x = Inr (g x)) \<Longrightarrow> ks = map (\<lambda>x. (g x, x)) xs"
  by (induction xs arbitrary: ks) (auto split: sum.splits)

lemma keyed_Inr_all: "keyed f xs = Inr ks \<Longrightarrow> x \<in> set xs \<Longrightarrow> \<exists>k. f x = Inr k"
  by (induction xs arbitrary: ks) (auto split: sum.splits)

lemma sort_desc_decorated:
  "sort_desc fst (map (\<lambda>y. (g y, y)) xs) = map (\<lambda>y. (g y, y)) (sort_desc g xs)"
proof (induction xs)
  case Nil show ?case by (simp add: sort_desc_def)
next
  case (Cons x xs)
  have step: "\<And>ys. insert_desc fst (g x, x) (map (\<lambda>y. (g y, y)) ys) = map (\<lambda>y. (g y, y)) (insert_desc g x ys)"
  proof -
    fix ys show "insert_desc fst (g x, x) (map (\<lambda>y. (g y, y)) ys) = map (\<lambda>y. (g y, y)) (insert_desc g x ys)"
      by (induction ys) auto
  qed
  from Cons show ?case by (simp add: sort_desc_def step)
qed

lemma sort_actions_Inr:
  assumes "sort_actions env battle actions = Inr out"
  shows "out = sort_desc (scheduler_key env battle) actions
         \<and> (\<forall>a \<in> set actions. get_action_priority env battle a = Inr (scheduler_key env battle a))"
proof -
  from assms obtain ks where ks: "keyed (get_action_priority env battle) actions = Inr ks"
      and out: "out = map snd (sort_desc fst ks)"
    by (auto simp: sort_actions_def split: sum.splits)
  have all: "\<forall>a \<in> set actions. get_action_priority env battle a = Inr (scheduler_key env battle a)"
    using keyed_Inr_all[OF ks] get_action_priority_key by metis
  from keyed_Inr[OF ks all] have "ks = map (\<lambda>x. (scheduler_key env battle x, x)) actions" .
  then have "out = map snd (map (\<lambda>y. (scheduler_key env battle y, y)) (sort_desc (scheduler_key env battle) actions))"
    using out by (simp add: sort_desc_decorated)
  then show ?thesis using all by (simp add: comp_def)
qed

lemma py_round_of_int [simp]: "py_round (of_int m) = m"
  by (simp add: py_round_def)

lemma ilog2_le: "0 < a \<Longrightarrow> a < 2 ^ Suc k \<Longrightarrow> ilog2 a \<le> int k"
proof (induction k arbitrary: a)
  case 0 then show ?case by (subst ilog2.simps) simp
next
  case (Suc k)
  show ?case
  proof (cases "a \<le> 1")
    case True then show ?thesis by (subst ilog2.simps) simp
  next
    case False
    then have "0 < a div 2" "a div 2 < 2 ^ Suc k" using Suc.prems by auto
    from Suc.IH[OF this] False show ?thesis by (subst ilog2.simps) simp
  qed
qed

lemma ilog2_one: "ilog2 1 = 0"
  by (subst ilog2.simps) simp

lemma to_float_of_int:
  assumes "\<bar>n\<bar> < 2 ^ 53"
  shows "to_float (of_int n) = of_int n"
proof (cases "n = 0")
  case True then show ?thesis by (simp add: to_float_def)
next
  case False
  let ?e = "float_exponent (of_int n)"
  have "0 < \<bar>n\<bar>" using False by simp
  from ilog2_le[OF this, of 52] assms have le: "ilog2 \<bar>n\<bar> \<le> 52" by simp
  have "?e \<le> ilog2 \<bar>n\<bar>"
    by (simp add: float_exponent_def quotient_of_int ilog2_one Let_def)
  with le have e: "?e \<le> 52" by simp
  define k where "k = nat (52 - ?e)"
  have p: "pow2 (?e - 52) = 1 / 2 ^ k"
    using e by (auto simp: pow2_def k_def)
  have "of_int n / pow2 (?e - 52) = (of_int (n * 2 ^ k) :: rat)"
    by (simp add: p)
  then have "py_round (of_int n / pow2 (?e - 52)) = n * 2 ^ k"
    by (simp only: py_round_of_int)
  then show ?thesis using False by (simp add: to_float_def p)
qed

lemma int_times_float_one: "\<bar>n\<bar> < 2 ^ 53 \<Longrightarrow> int_times_float n 1 = of_int n"
  by (simp add: int_times_float_def to_float_of_int)

lemma get_effective_speed_formula:
  "get_effective_speed env p =
     (let base = (case enhanced env of
                    None \<Rightarrow> speed p
                  | Some enh \<Rightarrow> (case get_speed enh p of None \<Rightarrow> speed p | Some v \<Rightarrow> v))
      in if items_db env = None then base
         else py_round (int_times_float base
                (case get_item env p of
                   None \<Rightarrow> 1
                 | Some it \<Rightarrow>
                     if effect_stat (item_effect_data it) = Some ''speed''
                     then (case multiplier (item_effect_data it) of
                             None \<Rightarrow> 1
                           | Some m \<Rightarrow> to_float m)
                     else 1)))"
  by (simp add: get_effective_speed_def get_speed_multiplier_def Let_def)

text \<open>
  Claim C3, as amended. When the scheduler returns, any two distinct actions \<open>a\<close>, \<open>b\<close> of
  the turn are ordered by the key \<open>(class, tie)\<close> descending, equal keys keeping their
  registration order: \<open>a\<close> precedes \<open>b\<close> iff \<open>key a > key b\<close>, or the keys are equal and
  \<open>a\<close> was registered first. The class is 100 for a switch, 90 for an item, the move's
  priority for a move and 0 otherwise; the second component is the constant 999 for a
  switch and for an item, the effective speed of the side's first active combatant for a
  move, and 0 for a flee. The effective speed is the raw speed, replaced by the
  calculator's speed when there is a calculator and it does not fail, and then, when the
  engine has a held-item manager, multiplied as a float by the speed multiplier of the
  held item (1 without one) and rounded to the nearest integer, halves to even.
\<close>

theorem sort_actions_order:
  assumes "sort_actions env battle actions = Inr out" and "distinct actions"
      and "a \<in> set actions" and "b \<in> set actions" and "a \<noteq> b"
  shows "set out = set actions \<and> distinct out
       \<and> (precedes out a b \<longleftrightarrow>
            (scheduler_key env battle b < scheduler_key env battle a
             \<or> (scheduler_key env battle a = scheduler_key env battle b \<and> precedes actions a b)))
       \<and> get_action_priority env battle a = Inr (scheduler_key env battle a)
       \<and> scheduler_key env battle a =
           (if action_type a = ''switch'' then (100, 999)
            else if action_type a = ''item'' then (90, 999)
            else if action_type a = ''move''
            then (case md_priority (the (moves_db env (move_id a))) of None \<Rightarrow> 0 | Some v \<Rightarrow> v,
                  get_effective_speed env
                    (party (get_battler battle (side_of battle (action_battler_id a)))
                     ! projr (first_active
                               (get_battler battle (side_of battle (action_battler_id a))))))
            else (0, 0))
       \<and> (\<forall>p. get_effective_speed env p =
            (let base = (case enhanced env of
                           None \<Rightarrow> speed p
                         | Some enh \<Rightarrow> (case get_speed enh p of None \<Rightarrow> speed p | Some v \<Rightarrow> v))
             in if items_db env = None then base
                else py_round (int_times_float base
                       (case get_item env p of
                          None \<Rightarrow> 1
                        | Some it \<Rightarrow>
                            if effect_stat (item_effect_data it) = Some ''speed''
                            then (case multiplier (item_effect_data it) of
                                    None \<Rightarrow> 1
                                  | Some m \<Rightarrow> to_float m)
                            else 1))))"
proof -
  from sort_actions_Inr[OF assms(1)]
  have out: "out = sort_desc (scheduler_key env battle) actions"
    and keys: "\<forall>a \<in> set actions. get_action_priority env battle a
                 = Inr (scheduler_key env battle a)" by simp_all
  have ord: "set out = set actions \<and> distinct out
       \<and> (precedes out a b \<longleftrightarrow>
            (scheduler_key env battle b < scheduler_key env battle a
             \<or> (scheduler_key env battle a = scheduler_key env battle b \<and> precedes actions a b)))"
    unfolding out using sort_desc_order[OF assms(2-5), of "scheduler_key env battle"] assms(2)
    by (simp add: set_sort_desc distinct_sort_desc before_key_def precedes_def)
  from keys assms(3) have ka: "get_action_priority env battle a = Inr (scheduler_key env battle a)"
    by blast
  have shape: "scheduler_key env battle a =
           (if action_type a = ''switch'' then (100, 999)
            else if action_type a = ''item'' then (90, 999)
            else if action_type a = ''move''
            then (case md_priority (the (moves_db env (move_id a))) of None \<Rightarrow> 0 | Some v \<Rightarrow> v,
                  get_effective_speed env
                    (party (get_battler battle (side_of battle (action_battler_id a)))
                     ! projr (first_active
                               (get_battler battle (side_of battle (action_battler_id a))))))
            else (0, 0))"
    using ka
    by (auto simp: get_action_priority_def scheduler_key_def action_class_def acting_speed_def
          Let_def split: option.splits sum.splits if_splits)
  from ord ka shape get_effective_speed_formula show ?thesis by blast
qed

theorem sort_actions_order_witness:
  "sort_actions scarf_env scarf_duel [use_move 2 ''tackle'', use_move 1 ''tackle'']
     = Inr [use_move 1 ''tackle'', use_move 2 ''tackle'']
   \<and> precedes [use_move 1 ''tackle'', use_move 2 ''tackle'']
         (use_move 1 ''tackle'') (use_move 2 ''tackle'')
   \<and> scheduler_key scarf_env scarf_duel (use_move 1 ''tackle'') = (0, 90)
   \<and> scheduler_key scarf_env scarf_duel (use_move 2 ''tackle'') = (0, 75)
   \<and> get_effective_speed scarf_env
         (holding ''speed-charm'' (mk_pokemon ''Pikachu'' 35 35 55 [tackle_slot])) = 61
   \<and> get_effective_speed scarf_env
         (holding ''speed-charm'' (mk_pokemon ''Pikachu'' 35 35 5 [tackle_slot])) = 6"
proof -
  have h: "sort_actions scarf_env scarf_duel [use_move 2 ''tackle'', use_move 1 ''tackle'']
     = Inr [use_move 1 ''tackle'', use_move 2 ''tackle'']"
    by code_simp
  have d: "distinct [use_move 2 ''tackle'', use_move 1 ''tackle'']"
    by (simp add: ex_defs)
  have k: "scheduler_key scarf_env scarf_duel (use_move 1 ''tackle'') = (0, 90)"
      "scheduler_key scarf_env scarf_duel (use_move 2 ''tackle'') = (0, 75)"
    by code_simp+
  have e: "get_effective_speed scarf_env
         (holding ''speed-charm'' (mk_pokemon ''Pikachu'' 35 35 55 [tackle_slot])) = 61"
      "get_effective_speed scarf_env
         (holding ''speed-charm'' (mk_pokemon ''Pikachu'' 35 35 5 [tackle_slot])) = 6"
    by code_simp+
  from sort_actions_order [OF h d, of "use_move 1 ''tackle''" "use_move 2 ''tackle''"] h k e
  show ?thesis by (simp add: ex_defs)
qed

text \<open>
  Claim C3 as stated fails: with the acting combatant's effective speed as second component
  for every action, the faster side's switch would come first. Two switches have the same
  key \<open>(100, 999)\<close> in the code and keep their registration order.
\<close>

theorem sort_actions_spec_key_counterexample:
  "sort_actions basic_env duel [switch_to 1 1, switch_to 2 1]
     = Inr [switch_to 1 1, switch_to 2 1]
   \<and> \<not> (precedes [switch_to 1 1, switch_to 2 1] (switch_to 1 1) (switch_to 2 1)
        \<longleftrightarrow> (spec_action_key basic_env duel (switch_to 2 1)
               < spec_action_key basic_env duel (switch_to 1 1)
             \<or> (spec_action_key basic_env duel (switch_to 1 1)
                  = spec_action_key basic_env duel (switch_to 2 1)
                 \<and> precedes [switch_to 1 1, switch_to 2 1] (switch_to 1 1) (switch_to 2 1))))"
  by (simp add: ex_defs sched_defs)

section \<open>Entry hazards: results\<close>

lemma rock_effectiveness_prod:
  "rock_effectiveness env ts =
     (case type_chart env ''rock'' of
        None \<Rightarrow> 1
      | Some row \<Rightarrow> prod_list (map (\<lambda>t. case row t of None \<Rightarrow> 1 | Some m \<Rightarrow> m) ts))"
proof -
  have "\<And>row acc. fold (\<lambda>t eff. case row t of None \<Rightarrow> eff | Some m \<Rightarrow> eff * m) ts acc
        = acc * prod_list (map (\<lambda>t. case row t of None \<Rightarrow> (1::rat) | Some m \<Rightarrow> m) ts)"
    by (induction ts) (auto split: option.splits)
  then show ?thesis by (simp add: rock_effectiveness_def split: option.splits)
qed

lemmas hazard_defs = apply_entry_hazards_def hazards_before_web_def side_hazards_def get_battler_def set_battler_def
  get_pokemon_def map_pokemon_def stealth_rock_damage_def rock_effectiveness_def
  pokemon_types_def is_grounded_def spikes_damage_def lose_hp_def toxic_spikes_entry_def
  sticky_web_entry_def py_int_def str_or_def truthy_def

lemmas lower_defs = lower_def lower_char_def

lemma lower_Poison: "lower ''Poison'' = ''poison''"
  by code_simp




lemma map_pokemon_hazards [simp]:
  "trainer_hazards (map_pokemon s i f b) = trainer_hazards b"
  "opponent_hazards (map_pokemon s i f b) = opponent_hazards b"
  by (cases s; simp add: map_pokemon_def set_battler_def Let_def)+

lemma side_hazards_clear:
  "side_hazards (clear_toxic_spikes s b) s = dict_pop ''toxic_spikes'' (side_hazards b s)"
  by (cases s) (auto simp: side_hazards_def clear_toxic_spikes_def get_battler_def)

lemma map_of_dict_pop: "map_of (dict_pop k d) k = None"
  by (induction d) (auto simp: dict_pop_def)

lemma map_of_dict_pop_other: "k' \<noteq> k \<Longrightarrow> map_of (dict_pop k d) k' = map_of d k'"
  by (induction d) (auto simp: dict_pop_def)

text \<open>
  Claim C8, as amended. Toxic spikes touch only a grounded entrant (no \<open>flying\<close> among the
  lower-cased types, ability not \<open>levitate\<close> in any case). A grounded poison type absorbs
  them, also when it is a steel type as well: the \<open>toxic_spikes\<close> entry is removed from
  that side's map, every other entry of the map stays, and the entrant is unchanged. A
  grounded steel type that is not a poison type is unaffected and nothing is removed. Any
  other grounded entrant gets \<open>psn\<close> for one layer and \<open>tox\<close> for two or more, through the
  status manager and only if its can-apply gate allows it.
\<close>

theorem toxic_spikes_on_entry:
  fixes env :: engine_env and battle :: battle_state and s :: side and i :: nat
    and hz :: "(string \<times> int) list"
  defines "p \<equiv> get_pokemon battle s i"
      and "b' \<equiv> toxic_spikes_entry env hz s i battle"
  assumes layers: "map_of hz ''toxic_spikes'' = Some n"
  shows "(\<not> is_grounded p \<longrightarrow> b' = battle)
       \<and> (is_grounded p \<and> ''poison'' \<in> set (pokemon_types p) \<longrightarrow>
            b' = clear_toxic_spikes s battle
            \<and> side_hazards b' s = dict_pop ''toxic_spikes'' (side_hazards battle s)
            \<and> map_of (side_hazards b' s) ''toxic_spikes'' = None
            \<and> (\<forall>k. k \<noteq> ''toxic_spikes'' \<longrightarrow>
                   map_of (side_hazards b' s) k = map_of (side_hazards battle s) k)
            \<and> get_pokemon b' s i = p)
       \<and> (is_grounded p \<and> ''poison'' \<notin> set (pokemon_types p)
            \<and> ''steel'' \<in> set (pokemon_types p) \<longrightarrow> b' = battle)
       \<and> (is_grounded p \<and> ''poison'' \<notin> set (pokemon_types p)
            \<and> ''steel'' \<notin> set (pokemon_types p) \<longrightarrow>
            b' = (if status_manager p \<noteq> None
                     \<and> sm_can_apply_status env p (if 2 \<le> n then ''tox'' else ''psn'')
                  then map_pokemon s i
                         (\<lambda>q. sm_apply_status env q (if 2 \<le> n then ''tox'' else ''psn'')) battle
                  else battle))"
proof -
  have st: "(if 2 \<le> min 2 n then ''tox'' else ''psn'') = (if 2 \<le> n then ''tox'' else ''psn'')"
    by simp
  have pk: "get_pokemon (clear_toxic_spikes s battle) s i = get_pokemon battle s i"
    by (cases s) (auto simp: clear_toxic_spikes_def get_pokemon_def get_battler_def)
  show ?thesis
    unfolding b'_def p_def toxic_spikes_entry_def Let_def
    using layers st pk
    by (auto simp: side_hazards_clear map_of_dict_pop map_of_dict_pop_other)
qed

theorem toxic_spikes_on_entry_witness:
  "map_of (trainer_hazards toxic_field) ''toxic_spikes'' = Some 2
   \<and> trainer_hazards (toxic_spikes_entry basic_env (trainer_hazards toxic_field) Trainer 2
        toxic_field) = []
   \<and> status_manager (get_pokemon
         (toxic_spikes_entry basic_env (trainer_hazards toxic_field) Trainer 1 toxic_field)
         Trainer 1) = Some \<lparr>volatile_statuses = [], major_status = Some ''tox''\<rparr>"
proof -
  have h: "map_of (trainer_hazards toxic_field) ''toxic_spikes'' = Some 2"
    by (simp add: toxic_field_def ex_defs)
  have g1: "is_grounded (get_pokemon toxic_field Trainer 1)
      \<and> ''poison'' \<notin> set (pokemon_types (get_pokemon toxic_field Trainer 1))
      \<and> ''steel'' \<notin> set (pokemon_types (get_pokemon toxic_field Trainer 1))"
    by (simp add: toxic_field_def ex_defs hazard_defs lower_defs with_status_manager_def)
  have g2: "is_grounded (get_pokemon toxic_field Trainer 2)
      \<and> ''poison'' \<in> set (pokemon_types (get_pokemon toxic_field Trainer 2))"
    by (simp add: toxic_field_def ex_defs hazard_defs lower_Poison)
  from toxic_spikes_on_entry [OF h, where s = Trainer and i = 1 and battle = toxic_field
         and env = basic_env]
       toxic_spikes_on_entry [OF h, where s = Trainer and i = 2 and battle = toxic_field
         and env = basic_env] h g1 g2
  show ?thesis
    by (simp add: toxic_field_def ex_defs hazard_defs with_status_manager_def
          set_major_status_def no_major_status_def clear_toxic_spikes_def dict_pop_def)
qed

text \<open>
  Claim C8 as stated fails: its sentence on steel types has no exception, but a grounded
  entrant that is both a steel and a poison type absorbs the toxic spikes. The layers are
  removed from the map; the stealth-rock entry stays.
\<close>

theorem toxic_spikes_steel_poison_counterexample:
  "is_grounded (get_pokemon steel_poison_field Trainer 1)
   \<and> ''steel'' \<in> set (pokemon_types (get_pokemon steel_poison_field Trainer 1))
   \<and> map_of (trainer_hazards steel_poison_field) ''toxic_spikes'' = Some 2
   \<and> apply_entry_hazards basic_env steel_poison_field Trainer 1
       = Inr ((map_pokemon Trainer 1 (lose_hp 10) steel_poison_field)
                \<lparr>trainer_hazards := [(''stealth_rock'', 1)]\<rparr>)"
  by code_simp

section \<open>Held items: results\<close>

lemmas item_defs = item_env_def basic_items_db_def focus_band_def focus_sash_def life_orb_def
  choice_scarf_def speed_charm_def no_effect_def holding_def

lemmas held_defs = get_item_def is_consumed_def consume_def try_focus_items_def focus_cap_def
  truthy_def

lemma get_item_consumed:
  "held_item q = Some i \<Longrightarrow> i \<in> set (consumed_items q) \<Longrightarrow> get_item env q = None"
  by (simp add: get_item_def is_consumed_def split: option.splits)

text \<open>
  Claim C7, as amended. Let the incoming damage be at least the defender's \<open>current_hp\<close>,
  which is greater than 1, and let its unconsumed held item have \<open>prevents_ko\<close>,
  \<open>requires_full_hp\<close> or an \<open>activation_chance\<close>. If moreover the item's trigger is absent or
  \<open>before_damage\<close>, the defender is at full HP when the item requires it, and the random
  draw does not exceed the \<open>activation_chance\<close> when there is one, then the damage
  becomes \<open>current_hp - 1\<close> and leaves the defender at exactly 1 HP. A \<open>one_time_use\<close> item
  is then put into the consumed set; when its id is the id it is held under, every later
  lookup for this combatant, whose consumed set only grows, finds no item.
\<close>

theorem focus_survival:
  assumes lethal: "current_hp d \<le> damage" and alive: "1 < current_hp d"
      and item: "get_item env d = Some it"
      and trig: "\<not> truthy (item_trigger it) \<or> item_trigger it = Some ''before_damage''"
      and kind: "prevents_ko (item_effect_data it) \<or> requires_full_hp (item_effect_data it)
                 \<or> activation_chance (item_effect_data it) \<noteq> None"
      and full: "requires_full_hp (item_effect_data it) \<Longrightarrow> max_hp d \<le> current_hp d"
      and roll: "\<And>a. activation_chance (item_effect_data it) = Some a \<Longrightarrow> random_random env n \<le> a"
  shows "fst (try_focus_items env n d damage) = current_hp d - 1
       \<and> current_hp (lose_hp (fst (try_focus_items env n d damage))
                      (fst (snd (try_focus_items env n d damage)))) = 1
       \<and> (one_time_use (item_effect_data it) \<longrightarrow>
            item_ident it \<in> set (consumed_items (fst (snd (try_focus_items env n d damage))))
            \<and> (held_item d = Some (item_ident it) \<longrightarrow>
                 (\<forall>q. held_item q = held_item d
                      \<and> set (consumed_items (fst (snd (try_focus_items env n d damage))))
                          \<subseteq> set (consumed_items q)
                      \<longrightarrow> get_item env q = None)))"
proof -
  let ?e = "item_effect_data it"
  let ?d' = "if one_time_use ?e then consume d (item_ident it) else d"
  have cap: "focus_cap it d damage m = (current_hp d - 1, ?d', m)" for m
    using alive by (simp add: focus_cap_def)
  have res: "\<exists>m. try_focus_items env n d damage = (current_hp d - 1, ?d', m)"
  proof (cases "activation_chance ?e")
    case None
    then show ?thesis using lethal alive item trig kind full cap
      by (auto simp: try_focus_items_def Let_def)
  next
    case (Some a)
    with roll have "\<not> a < random_random env n" by fastforce
    then show ?thesis using Some lethal alive item trig kind full cap
      by (auto simp: try_focus_items_def Let_def)
  qed
  then obtain m where r: "try_focus_items env n d damage = (current_hp d - 1, ?d', m)" by blast
  have hp: "current_hp ?d' = current_hp d" by (simp add: consume_def)
  have c: "one_time_use ?e \<Longrightarrow> item_ident it \<in> set (consumed_items ?d')"
    by (simp add: consume_def)
  show ?thesis using r hp c alive
    by (auto simp: lose_hp_def intro: get_item_consumed)
qed


theorem focus_survival_witness:
  "fst (try_focus_items item_env 0 (holding ''focus-sash'' (mk_pokemon ''Eevee'' 55 55 55 [])) 80) = 54
   \<and> get_item item_env (holding ''focus-sash'' (mk_pokemon ''Eevee'' 55 55 55 [])) = Some focus_sash
   \<and> get_item item_env (fst (snd (try_focus_items item_env 0 (holding ''focus-sash'' (mk_pokemon ''Eevee'' 55 55 55 [])) 80))) = None"
proof -
  have i: "get_item item_env (holding ''focus-sash'' (mk_pokemon ''Eevee'' 55 55 55 [])) = Some focus_sash"
    by (simp add: item_defs ex_defs held_defs)
  have l: "current_hp (holding ''focus-sash'' (mk_pokemon ''Eevee'' 55 55 55 [])) \<le> 80" and a: "1 < current_hp (holding ''focus-sash'' (mk_pokemon ''Eevee'' 55 55 55 []))"
    by (simp_all add: item_defs ex_defs)
  have t: "\<not> truthy (item_trigger focus_sash) \<or> item_trigger focus_sash = Some ''before_damage''"
    by (simp add: item_defs)
  have k: "prevents_ko (item_effect_data focus_sash) \<or> requires_full_hp (item_effect_data focus_sash)
      \<or> activation_chance (item_effect_data focus_sash) \<noteq> None"
    by (simp add: item_defs)
  have f: "requires_full_hp (item_effect_data focus_sash) \<Longrightarrow> max_hp (holding ''focus-sash'' (mk_pokemon ''Eevee'' 55 55 55 [])) \<le> current_hp (holding ''focus-sash'' (mk_pokemon ''Eevee'' 55 55 55 []))"
    by (simp add: item_defs ex_defs)
  have r: "\<And>c. activation_chance (item_effect_data focus_sash) = Some c
      \<Longrightarrow> random_random item_env 0 \<le> c"
    by (simp add: item_defs)
  have o: "one_time_use (item_effect_data focus_sash)"
      and hd: "held_item (holding ''focus-sash'' (mk_pokemon ''Eevee'' 55 55 55 [])) = Some (item_ident focus_sash)"
      and hq: "held_item (fst (snd (try_focus_items item_env 0 (holding ''focus-sash'' (mk_pokemon ''Eevee'' 55 55 55 [])) 80))) = held_item (holding ''focus-sash'' (mk_pokemon ''Eevee'' 55 55 55 []))"
    by (simp_all add: item_defs ex_defs held_defs)
  from focus_survival [OF l a i t k f r] o hd hq i
  show ?thesis by (simp add: item_defs ex_defs)
qed

text \<open>
  Claim C7 as stated fails: an item with an \<open>activation_chance\<close> caps the damage only when
  the draw succeeds. With chance \<open>1/10\<close> and draw \<open>1/2\<close> the full damage goes through.
\<close>

theorem focus_activation_counterexample:
  "spec_focus_applies item_env (holding ''focus-band'' (mk_pokemon ''Eevee'' 20 55 55 [])) 30
   \<and> fst (try_focus_items item_env 0 (holding ''focus-band'' (mk_pokemon ''Eevee'' 20 55 55 [])) 30) \<noteq> current_hp (holding ''focus-band'' (mk_pokemon ''Eevee'' 20 55 55 [])) - 1"
  by (simp add: spec_focus_applies_def item_defs ex_defs held_defs)

section \<open>Forced switch: results\<close>

text \<open>
  Claim C9. Whenever \<^verbatim>\<open>force_switch\<close> returns an error, the registry, and with it every
  field of every battle, is what it was; and it returns an error, with nothing changed,
  for an unknown battle id, a phase other than \<open>FORCED_SWITCH\<close>, a battler other than the
  designated one, a slot out of range, and a target whose \<open>current_hp\<close> is not positive.
\<close>

theorem force_switch_error_atomic:
  "(force_switch env reg bid battler pos = Inr (Inl err, reg') \<longrightarrow> reg' = reg)
   \<and> (reg bid = None \<longrightarrow>
        force_switch env reg bid battler pos = Inr (Inl BattleNotFound, reg))
   \<and> (reg bid = Some battle
        \<and> (phase battle \<noteq> ''FORCED_SWITCH'' \<or> forced_switch_battler_id battle \<noteq> Some battler)
        \<longrightarrow> force_switch env reg bid battler pos = Inr (Inl NoForcedSwitchPending, reg))
   \<and> (reg bid = Some battle
        \<and> phase battle = ''FORCED_SWITCH'' \<and> forced_switch_battler_id battle = Some battler
        \<and> (pos < 0 \<or> int (length (party (get_battler battle (side_of battle battler)))) \<le> pos)
        \<longrightarrow> force_switch env reg bid battler pos = Inr (Inl InvalidPartySlot, reg))
   \<and> (reg bid = Some battle
        \<and> phase battle = ''FORCED_SWITCH'' \<and> forced_switch_battler_id battle = Some battler
        \<and> 0 \<le> pos \<and> pos < int (length (party (get_battler battle (side_of battle battler))))
        \<and> current_hp (party (get_battler battle (side_of battle battler)) ! nat pos) \<le> 0
        \<longrightarrow> force_switch env reg bid battler pos = Inr (Inl CantBattle, reg))"
  by (auto simp: force_switch_def force_switch_battle_def Let_def
           split: option.splits sum.splits if_splits)

theorem force_switch_error_atomic_witness:
  "force_switch basic_env (registry_of duel) ''b1'' 1 1
     = Inr (Inl NoForcedSwitchPending, registry_of duel)"
  using force_switch_error_atomic [of basic_env "registry_of duel" "''b1''" 1 1
          NoForcedSwitchPending "registry_of duel" duel]
  by (simp add: registry_of_def ex_defs)

section \<open>Frame lemmas\<close>

lemma other_side_neq [simp]: "other_side s \<noteq> s" "s \<noteq> other_side s"
  by (cases s; simp add: other_side_def)+

lemma get_battler_set_battler [simp]:
  "get_battler (set_battler s bt b) s' = (if s = s' then bt else get_battler b s')"
  by (cases s; cases s'; simp add: get_battler_def set_battler_def)

lemma get_pokemon_map_pokemon_other [simp]:
  "s \<noteq> s' \<Longrightarrow> get_pokemon (map_pokemon s i f b) s' j = get_pokemon b s' j"
  by (simp add: get_pokemon_def map_pokemon_def Let_def)

lemma moves_get_pokemon_map_pokemon:
  "(\<And>q. moves (f q) = moves q) \<Longrightarrow>
   moves (get_pokemon (map_pokemon s i f b) s' j) = moves (get_pokemon b s' j)"
  by (cases "s = s'"; cases "i = j"; cases "i < length (party (get_battler b s))";
      simp add: get_pokemon_def map_pokemon_def Let_def list_update_beyond)

lemma get_pokemon_map_pokemon_same:
  "i < length (party (get_battler b s)) \<Longrightarrow>
   get_pokemon (map_pokemon s i f b) s i = f (get_pokemon b s i)"
  by (simp add: get_pokemon_def map_pokemon_def Let_def)

lemma get_pokemon_upd [simp]:
  "get_pokemon (b\<lparr>rng_calls := n\<rparr>) s i = get_pokemon b s i"
  "get_pokemon (b\<lparr>phase := ph\<rparr>) s i = get_pokemon b s i"
  "get_pokemon (b\<lparr>wild_dazed := w\<rparr>) s i = get_pokemon b s i"
  "get_pokemon (b\<lparr>forced_switch_battler_id := fid\<rparr>) s i = get_pokemon b s i"
  "get_pokemon (b\<lparr>pending_ai_switch_index := ix\<rparr>) s i = get_pokemon b s i"
  "get_pokemon (b\<lparr>is_over := ov\<rparr>) s i = get_pokemon b s i"
  "get_pokemon (b\<lparr>winner := wi\<rparr>) s i = get_pokemon b s i"
  by (cases s; simp add: get_pokemon_def get_battler_def)+

lemma get_pokemon_check_battle_end [simp]:
  "get_pokemon (check_battle_end b) s i = get_pokemon b s i"
  by (simp add: check_battle_end_def Let_def)

lemma moves_handle_faint:
  "moves (get_pokemon (handle_faint b sd di) s i) = moves (get_pokemon b s i)"
  by (simp add: handle_faint_def Let_def moves_get_pokemon_map_pokemon split: option.splits)

lemma moves_apply_after_damage [simp]: "moves (apply_after_damage env p md d) = moves p"
  by (simp add: apply_after_damage_def register_move_use_def Let_def split: option.splits)

lemma moves_lose_hp [simp]: "moves (lose_hp d p) = moves p"
  by (simp add: lose_hp_def)

lemma active_indices_from_less:
  "active_indices_from n ps = Inr js \<Longrightarrow> j \<in> set js \<Longrightarrow> j < n"
  by (induction ps arbitrary: js) (auto split: if_splits sum.splits)

lemma first_active_less: "first_active bt = Inr i \<Longrightarrow> i < length (party bt)"
  by (auto simp: first_active_def active_indices_def split: sum.splits list.splits
           dest: active_indices_from_less)

lemma move_targets_Inr:
  "move_targets b a = Inr (sa, ai, sd, di) \<Longrightarrow>
   sa = side_of b (action_battler_id a) \<and> sd = other_side sa
   \<and> first_active (get_battler b sa) = Inr ai"
  by (auto simp: move_targets_def Let_def split: sum.splits)

section \<open>PP deduction: results\<close>

lemma length_deduct_pp [simp]: "length (deduct_pp mid ms) = length ms"
  by (induction ms) auto

lemma deduct_pp_nth:
  "j < length ms \<Longrightarrow>
   deduct_pp mid ms ! j =
     (if Some (slot_move_id (ms ! j)) = mid \<and> (\<forall>k < j. Some (slot_move_id (ms ! k)) \<noteq> mid)
      then (ms ! j)\<lparr>slot_pp := max 0 (slot_pp (ms ! j) - 1)\<rparr>
      else ms ! j)"
proof (induction ms arbitrary: j)
  case Nil then show ?case by simp
next
  case (Cons m ms)
  show ?case
  proof (cases j)
    case 0 then show ?thesis by simp
  next
    case (Suc j')
    with Cons.prems have j': "j' < length ms" by simp
    show ?thesis
    proof (cases "Some (slot_move_id m) = mid")
      case True
      then have "\<not> (\<forall>k < j. Some (slot_move_id ((m # ms) ! k)) \<noteq> mid)"
        using Suc by (auto intro: exI[of _ 0])
      then show ?thesis using True Suc by auto
    next
      case False
      have "(\<forall>k < j. Some (slot_move_id ((m # ms) ! k)) \<noteq> mid)
            \<longleftrightarrow> (\<forall>k < j'. Some (slot_move_id (ms ! k)) \<noteq> mid)"
        using False Suc by (auto simp: less_Suc_eq_0_disj)
      then show ?thesis using False Suc Cons.IH[OF j'] by auto
    qed
  qed
qed

text \<open>
  Claim C5. Let the status manager and the damage calculator leave the attacker's move list
  alone. After \<^verbatim>\<open>_execute_move\<close> the attacker's move list is unchanged when a status
  condition prevents the move, when the move is unknown, when the held-item restriction
  (choice lock included) refuses it, and when the ruleset bans it. Otherwise it is
  \<open>deduct_pp\<close> of the old list: the first slot with the move's id has its PP lowered by one,
  not below 0, and every other slot is as before.
\<close>

theorem execute_move_pp:
  fixes env :: engine_env and battle :: battle_state and action :: battle_action
  assumes run: "execute_move env battle action = Inr b'"
      and tgt: "move_targets battle action = Inr (sa, ai, sd, di)"
      and sm_frame: "\<And>p. moves (snd (sm_can_move env p)) = moves p"
      and calc_frame: "\<And>enh b. enhanced env = Some enh \<Longrightarrow>
             moves (get_pokemon (snd (snd (calculate_damage_with_effects enh b sa ai di
                      (move_id action)))) sa ai) = moves (get_pokemon b sa ai)"
  shows "moves (get_pokemon b' sa ai) =
           (let p = get_pokemon battle sa ai;
                checked = (if enhanced env \<noteq> None \<and> status_manager p \<noteq> None
                           then sm_can_move env p else (True, p))
            in if \<not> fst checked then moves p
               else case moves_db env (move_id action) of
                      None \<Rightarrow> moves p
                    | Some md \<Rightarrow>
                        if items_db env \<noteq> None \<and> check_move_restrictions env (snd checked) md
                        then moves p
                        else if ruleset battle \<noteq> None
                                \<and> \<not> is_move_allowed env (move_id action) (the (ruleset battle))
                        then moves p
                        else deduct_pp (move_id action) (moves p))"
proof -
  let ?p = "get_pokemon battle sa ai"
  let ?checked = "if enhanced env \<noteq> None \<and> status_manager ?p \<noteq> None
                  then sm_can_move env ?p else (True, ?p)"
  let ?b1 = "map_pokemon sa ai (\<lambda>_. snd ?checked) battle"
  from move_targets_Inr[OF tgt] have sd: "sd = other_side sa"
    and fa: "first_active (get_battler battle sa) = Inr ai" by blast+
  have ai: "ai < length (party (get_battler battle sa))" using first_active_less[OF fa] .
  have p1: "get_pokemon ?b1 sa ai = snd ?checked"
    using ai by (simp add: get_pokemon_map_pokemon_same)
  have m1: "moves (snd ?checked) = moves ?p" using sm_frame by simp
  have r1: "ruleset ?b1 = ruleset battle"
    by (cases sa; simp add: map_pokemon_def set_battler_def Let_def)
  have hit: "moves (get_pokemon (resolve_hit env ?b1 action sa ai sd di md) sa ai)
             = deduct_pp (move_id action) (moves ?p)" for md
  proof -
    let ?b2 = "map_pokemon sa ai (\<lambda>p. p\<lparr>moves := deduct_pp (move_id action) (moves p)\<rparr>) ?b1"
    have ai1: "ai < length (party (get_battler ?b1 sa))" using ai
      by (simp add: map_pokemon_def Let_def)
    have m2: "moves (get_pokemon ?b2 sa ai) = deduct_pp (move_id action) (moves ?p)"
      using ai1 p1 m1 by (simp add: get_pokemon_map_pokemon_same)
    let ?calc = "case enhanced env of None \<Rightarrow> (10, 1, ?b2)
                  | Some enh \<Rightarrow> calculate_damage_with_effects enh ?b2 sa ai di (move_id action)"
    have m3: "moves (get_pokemon (snd (snd ?calc)) sa ai) = deduct_pp (move_id action) (moves ?p)"
      using m2 calc_frame by (cases "enhanced env") auto
    show ?thesis
      unfolding resolve_hit_def Let_def
      using m3 sd by (simp add: moves_get_pokemon_map_pokemon)
  qed
  have em: "execute_move env battle action =
      (if \<not> fst ?checked then Inr ?b1
       else (case moves_db env (move_id action) of
               None \<Rightarrow> Inr ?b1
             | Some md \<Rightarrow>
                 if items_db env \<noteq> None \<and> check_move_restrictions env (get_pokemon ?b1 sa ai) md
                 then Inr ?b1
                 else if ruleset ?b1 \<noteq> None
                         \<and> \<not> is_move_allowed env (move_id action) (the (ruleset ?b1))
                 then Inr ?b1
                 else Inr (handle_faint (resolve_hit env ?b1 action sa ai sd di md) sd di)))"
    by (simp only: execute_move_def Let_def tgt sum.case prod.case)
  have same: "moves (get_pokemon ?b1 sa ai) = moves ?p" using p1 m1 by simp
  consider (blocked) "\<not> fst ?checked"
    | (unknown) "fst ?checked" "moves_db env (move_id action) = None"
    | (known) md where "fst ?checked" "moves_db env (move_id action) = Some md"
    by (cases "moves_db env (move_id action)") auto
  then show ?thesis
  proof cases
    case blocked
    with run em have "b' = ?b1" by simp
    then show ?thesis using same blocked unfolding Let_def by simp
  next
    case unknown
    with run em have "b' = ?b1" by simp
    then show ?thesis using same unknown unfolding Let_def by simp
  next
    case known
    let ?restricted = "items_db env \<noteq> None \<and> check_move_restrictions env (snd ?checked) md"
    let ?banned = "ruleset battle \<noteq> None
                   \<and> \<not> is_move_allowed env (move_id action) (the (ruleset battle))"
    show ?thesis
    proof (cases "?restricted \<or> ?banned")
      case True
      with run em known p1 r1 have "b' = ?b1" by (auto split: if_splits)
      then show ?thesis using same known True unfolding Let_def by auto
    next
      case False
      with run em known p1 r1
      have "b' = handle_faint (resolve_hit env ?b1 action sa ai sd di md) sd di"
        by (auto split: if_splits)
      then have "moves (get_pokemon b' sa ai) = deduct_pp (move_id action) (moves ?p)"
        using hit by (simp add: moves_handle_faint)
      then show ?thesis using known False unfolding Let_def by auto
    qed
  qed
qed

lemma execute_move_returns:
  "move_targets battle action = Inr t \<Longrightarrow> \<exists>b'. execute_move env battle action = Inr b'"
  by (cases t) (simp add: execute_move_def Let_def split: option.splits)

lemmas move_defs = move_targets_def first_active_def active_indices_def get_battler_def
  side_of_def other_side_def py_index_def get_pokemon_def

theorem execute_move_pp_witness:
  "\<exists>b'. execute_move enhanced_env duel (use_move 1 ''tackle'') = Inr b'
      \<and> moves (get_pokemon b' Trainer 0) = [\<lparr>slot_move_id = ''tackle'', slot_pp = 34\<rparr>]"
proof -
  have t: "move_targets duel (use_move 1 ''tackle'') = Inr (Trainer, 0, Opponent, 0)"
    by (simp add: ex_defs move_defs)
  from execute_move_returns [OF t] obtain b'
    where run: "execute_move enhanced_env duel (use_move 1 ''tackle'') = Inr b'" by blast
  have f1: "\<And>p. moves (snd (sm_can_move enhanced_env p)) = moves p"
    by (simp add: enhanced_env_def ex_defs)
  have f2: "\<And>enh b. enhanced enhanced_env = Some enh \<Longrightarrow>
      moves (get_pokemon (snd (snd (calculate_damage_with_effects enh b Trainer 0 0
               (move_id (use_move 1 ''tackle''))))) Trainer 0) = moves (get_pokemon b Trainer 0)"
    by (auto simp: enhanced_env_def simple_enhanced_def ex_defs)
  from execute_move_pp [OF run t f1 f2]
  have "moves (get_pokemon b' Trainer 0) = [\<lparr>slot_move_id = ''tackle'', slot_pp = 34\<rparr>]"
    by (simp add: enhanced_env_def simple_enhanced_def ex_defs move_defs Let_def)
  with run show ?thesis by blast
qed

section \<open>First active slot: results\<close>

lemma active_positions_map_pokemon [simp]:
  "active_positions (get_battler (map_pokemon s i f b) s') = active_positions (get_battler b s')"
  by (cases "s = s'") (simp_all add: map_pokemon_def Let_def)

lemma active_positions_clear_toxic [simp]:
  "active_positions (get_battler (clear_toxic_spikes s b) s') = active_positions (get_battler b s')"
  by (cases s') (simp_all add: clear_toxic_spikes_def get_battler_def)

lemma active_positions_toxic [simp]:
  "active_positions (get_battler (toxic_spikes_entry env hz s i b) s')
     = active_positions (get_battler b s')"
  by (simp add: toxic_spikes_entry_def Let_def)

lemma active_positions_sticky:
  "sticky_web_entry hz s i b = Inr b' \<Longrightarrow>
   active_positions (get_battler b' s') = active_positions (get_battler b s')"
  by (auto simp: sticky_web_entry_def Let_def split: if_splits option.splits)

lemma active_positions_hazards:
  "apply_entry_hazards env b s i = Inr b' \<Longrightarrow>
   active_positions (get_battler b' s') = active_positions (get_battler b s')"
  by (auto simp: apply_entry_hazards_def hazards_before_web_def Let_def split: if_splits
           dest!: active_positions_sticky)

lemma first_active_valid:
  assumes "active_positions bt = a0 # rest"
      and "- int (length (party bt)) \<le> a0" and "a0 < int (length (party bt))"
      and "first_active bt = Inr i"
  shows "i = py_slot (length (party bt)) a0"
  using assms
  by (auto simp: first_active_def active_indices_def py_slot_def
           split: sum.splits list.splits if_splits)

lemma execute_switch_positions:
  assumes ap: "active_positions (get_battler battle s) = a0 # rest"
      and s: "s = side_of battle (action_battler_id action)"
      and frame: "\<And>enh b i. enhanced env = Some enh \<Longrightarrow>
             active_positions (get_battler (trigger_on_entry enh b s i) s)
               = active_positions (get_battler b s)"
      and run: "execute_switch env battle action = Inr b'"
  shows "\<exists>pos. switch_to_position action = Some pos
           \<and> active_positions (get_battler b' s) = pos # rest"
proof -
  let ?bt = "get_battler battle s"
  from run s obtain old pos new where
      pos: "switch_to_position action = Some pos"
    and hz: "apply_entry_hazards env
        (let b1 = set_battler s (?bt\<lparr>active_positions := (active_positions ?bt)[0 := pos]\<rparr>) battle;
             b2 = (if items_db env \<noteq> None then map_pokemon s old clear_choice_lock b1 else b1)
         in case enhanced env of None \<Rightarrow> b2 | Some enh \<Rightarrow> trigger_on_entry enh b2 s new) s new
        = Inr b'"
    by (auto simp: execute_switch_def Let_def split: sum.splits option.splits)
  from active_positions_hazards[OF hz, of s]
  have "active_positions (get_battler b' s) = pos # rest"
    using ap frame by (cases "enhanced env") (simp_all add: Let_def)
  with pos show ?thesis by blast
qed

text \<open>
  Claim C10. Whatever the format, with a valid first entry in the acting side's
  \<open>active_positions\<close>: the attacker of a move is the combatant at that entry and only the
  defender is looked up through the action's target position; a manual switch replaces
  that entry and no other; a forced switch that passes its checks is that same switch,
  followed by the reset of the forced-switch state, and replaces that entry and no other;
  the scheduler's speed for a move is the effective speed of the combatant at that entry.
  The on-entry ability hook is taken not to change \<open>active_positions\<close>.
\<close>

theorem first_active_slot:
  fixes env :: engine_env and battle :: battle_state and action :: battle_action
  defines "s \<equiv> side_of battle (action_battler_id action)"
  defines "slot \<equiv> py_slot (length (party (get_battler battle s)))
                      (hd (active_positions (get_battler battle s)))"
  assumes ap: "active_positions (get_battler battle s) = a0 # rest"
      and lo: "- int (length (party (get_battler battle s))) \<le> a0"
      and hi: "a0 < int (length (party (get_battler battle s)))"
      and frame: "\<And>enh b i. enhanced env = Some enh \<Longrightarrow>
             active_positions (get_battler (trigger_on_entry enh b s i) s)
               = active_positions (get_battler b s)"
  shows "(move_targets battle action = Inr (sa, ai, sd, di) \<longrightarrow>
            sa = s \<and> ai = slot \<and> sd = other_side s
            \<and> (\<exists>ds. active_indices (get_battler battle sd) = Inr ds
                  \<and> py_index ds (case target_position action of None \<Rightarrow> 0 | Some t \<Rightarrow> t)
                      = Inr di))
       \<and> (execute_switch env battle action = Inr b' \<longrightarrow>
            (\<exists>pos. switch_to_position action = Some pos
                  \<and> active_positions (get_battler b' s) = pos # rest))
       \<and> (force_switch_battle env battle (action_battler_id action) p = Inr (Inr b'') \<longrightarrow>
            active_positions (get_battler b'' s) = p # rest)
       \<and> (phase battle = ''FORCED_SWITCH''
            \<and> forced_switch_battler_id battle = Some (action_battler_id action)
            \<and> 0 \<le> p \<and> p < int (length (party (get_battler battle s)))
            \<and> 0 < current_hp (party (get_battler battle s) ! nat p) \<longrightarrow>
            force_switch_battle env battle (action_battler_id action) p =
              (case execute_switch env battle (switch_to (action_battler_id action) p) of
                 Inl e \<Rightarrow> Inl e
               | Inr b1 \<Rightarrow>
                   Inr (Inr (b1\<lparr>phase := ''WAITING_ACTIONS'',
                                forced_switch_battler_id := None,
                                pending_ai_switch_index := None,
                                pending_actions := dict_pop (action_battler_id action)
                                                     (pending_actions b1)\<rparr>))))
       \<and> (action_type action = ''move''
            \<and> get_action_priority env battle action = Inr (c, v) \<longrightarrow>
            v = get_effective_speed env (party (get_battler battle s) ! slot))"
proof -
  have slot: "slot = py_slot (length (party (get_battler battle s))) a0"
    by (simp add: slot_def ap)
  have part1: "move_targets battle action = Inr (sa, ai, sd, di) \<longrightarrow>
            sa = s \<and> ai = slot \<and> sd = other_side s
            \<and> (\<exists>ds. active_indices (get_battler battle sd) = Inr ds
                  \<and> py_index ds (case target_position action of None \<Rightarrow> 0 | Some t \<Rightarrow> t)
                      = Inr di)"
  proof
    assume mt: "move_targets battle action = Inr (sa, ai, sd, di)"
    from move_targets_Inr[OF mt] have sa: "sa = s" and sd: "sd = other_side s"
      and fa: "first_active (get_battler battle s) = Inr ai" unfolding s_def by blast+
    from first_active_valid[OF ap lo hi fa] slot have ai: "ai = slot" by simp
    from mt sa sd have "\<exists>ds. active_indices (get_battler battle sd) = Inr ds
        \<and> py_index ds (case target_position action of None \<Rightarrow> 0 | Some t \<Rightarrow> t) = Inr di"
      unfolding s_def by (auto simp: move_targets_def Let_def split: sum.splits)
    with sa ai sd
    show "sa = s \<and> ai = slot \<and> sd = other_side s
          \<and> (\<exists>ds. active_indices (get_battler battle sd) = Inr ds
                \<and> py_index ds (case target_position action of None \<Rightarrow> 0 | Some t \<Rightarrow> t)
                    = Inr di)" by blast
  qed
  have part2: "execute_switch env battle action = Inr b' \<longrightarrow>
            (\<exists>pos. switch_to_position action = Some pos
                  \<and> active_positions (get_battler b' s) = pos # rest)"
  proof
    assume "execute_switch env battle action = Inr b'"
    from execute_switch_positions[OF ap s_def[THEN meta_eq_to_obj_eq] frame this]
    show "\<exists>pos. switch_to_position action = Some pos
          \<and> active_positions (get_battler b' s) = pos # rest" .
  qed
  have sw_eq: "\<lparr>action_type = ''switch'', action_battler_id = action_battler_id action,
            move_id = None, target_position = None, mega_evolve = False,
            switch_to_position = Some p, item_id = None, item_target_position = None,
            priority = 0, action_speed = 0\<rparr> = switch_to (action_battler_id action) p"
    by (simp add: switch_to_def new_action_def)
  have part3: "force_switch_battle env battle (action_battler_id action) p = Inr (Inr b'') \<longrightarrow>
            active_positions (get_battler b'' s) = p # rest"
  proof
    assume fs: "force_switch_battle env battle (action_battler_id action) p = Inr (Inr b'')"
    let ?a = "switch_to (action_battler_id action) p"
    from fs obtain b1 where sw: "execute_switch env battle ?a = Inr b1"
      and b'': "b'' = b1\<lparr>phase := ''WAITING_ACTIONS'', forced_switch_battler_id := None,
                         pending_ai_switch_index := None,
                         pending_actions := dict_pop (action_battler_id action) (pending_actions b1)\<rparr>"
      by (auto simp: force_switch_battle_def Let_def sw_eq split: if_splits sum.splits)
    have s': "s = side_of battle (action_battler_id ?a)"
      by (simp add: s_def switch_to_def new_action_def)
    from execute_switch_positions[OF ap s' frame sw]
    have "active_positions (get_battler b1 s) = p # rest"
      by (simp add: switch_to_def new_action_def)
    then show "active_positions (get_battler b'' s) = p # rest"
      unfolding b'' by (cases s) (simp_all add: get_battler_def)
  qed
  have part3b: "phase battle = ''FORCED_SWITCH''
            \<and> forced_switch_battler_id battle = Some (action_battler_id action)
            \<and> 0 \<le> p \<and> p < int (length (party (get_battler battle s)))
            \<and> 0 < current_hp (party (get_battler battle s) ! nat p) \<longrightarrow>
            force_switch_battle env battle (action_battler_id action) p =
              (case execute_switch env battle (switch_to (action_battler_id action) p) of
                 Inl e \<Rightarrow> Inl e
               | Inr b1 \<Rightarrow>
                   Inr (Inr (b1\<lparr>phase := ''WAITING_ACTIONS'',
                                forced_switch_battler_id := None,
                                pending_ai_switch_index := None,
                                pending_actions := dict_pop (action_battler_id action)
                                                     (pending_actions b1)\<rparr>)))"
    unfolding s_def by (simp add: force_switch_battle_def Let_def sw_eq)
  have part4: "action_type action = ''move''
            \<and> get_action_priority env battle action = Inr (c, v) \<longrightarrow>
            v = get_effective_speed env (party (get_battler battle s) ! slot)"
  proof
    assume "action_type action = ''move'' \<and> get_action_priority env battle action = Inr (c, v)"
    then obtain i where fa: "first_active (get_battler battle s) = Inr i"
      and v: "v = get_effective_speed env (party (get_battler battle s) ! i)"
      unfolding s_def
      by (auto simp: get_action_priority_def Let_def split: option.splits sum.splits if_splits)
    from first_active_valid[OF ap lo hi fa] v slot
    show "v = get_effective_speed env (party (get_battler battle s) ! slot)" by simp
  qed
  from part1 part2 part3 part3b part4 show ?thesis by (intro conjI)
qed

theorem first_active_slot_witness:
  "battle_format doubles3 = DOUBLES
   \<and> active_positions (trainer doubles3) = [0, 1]
   \<and> move_targets doubles3 ((use_move 1 ''tackle'')\<lparr>target_position := Some 1\<rparr>)
       = Inr (Trainer, 0, Opponent, 1)
   \<and> get_action_priority enhanced_env doubles3 (use_move 1 ''tackle'') = Inr (0, 50)
   \<and> (\<exists>b'. execute_switch enhanced_env doubles3 (switch_to 1 2) = Inr b'
           \<and> active_positions (trainer b') = [2, 1])
   \<and> (\<exists>b''. force_switch_battle enhanced_env forced3 1 2 = Inr (Inr b'')
           \<and> active_positions (trainer b'') = [2, 1]
           \<and> phase b'' = ''WAITING_ACTIONS'')"
proof -
  have s: "side_of doubles3 (action_battler_id (switch_to 1 2)) = Trainer"
      "side_of forced3 (action_battler_id (switch_to 1 2)) = Trainer"
      "side_of doubles3 (action_battler_id (use_move 1 ''tackle'')) = Trainer"
    by code_simp+
  have ap: "active_positions (get_battler doubles3 Trainer) = 0 # [1]"
      "active_positions (get_battler forced3 Trainer) = 0 # [1]"
    by code_simp+
  have lo: "- int (length (party (get_battler doubles3 Trainer))) \<le> 0"
      "- int (length (party (get_battler forced3 Trainer))) \<le> 0"
    by simp_all
  have hi: "0 < int (length (party (get_battler doubles3 Trainer)))"
      "0 < int (length (party (get_battler forced3 Trainer)))"
    by code_simp+
  have fr: "\<And>enh b i. enhanced enhanced_env = Some enh \<Longrightarrow>
      active_positions (get_battler (trigger_on_entry enh b Trainer i) Trainer)
        = active_positions (get_battler b Trainer)"
    by (auto simp: enhanced_env_def simple_enhanced_def ex_defs)
  have fmt: "battle_format doubles3 = DOUBLES" "active_positions (trainer doubles3) = [0, 1]"
    by code_simp+
  have mt: "move_targets doubles3 ((use_move 1 ''tackle'')\<lparr>target_position := Some 1\<rparr>)
       = Inr (Trainer, 0, Opponent, 1)"
    by code_simp
  have key: "map_sum id fst (get_action_priority enhanced_env doubles3 (use_move 1 ''tackle''))
       = Inr 0"
      "action_type (use_move 1 ''tackle'') = ''move''"
      "get_effective_speed enhanced_env (party (get_battler doubles3 Trainer) ! 0) = 50"
    by code_simp+
  then obtain v where gp: "get_action_priority enhanced_env doubles3 (use_move 1 ''tackle'')
       = Inr (0, v)"
    by (cases "get_action_priority enhanced_env doubles3 (use_move 1 ''tackle'')") auto
  from first_active_slot [where battle = doubles3 and env = enhanced_env
        and action = "use_move 1 ''tackle''" and ?a0.0 = 0 and rest = "[1]" and c = 0 and v = v,
        unfolded s, OF ap(1) lo(1) hi(1) fr] gp key ap(1)
  have prio: "get_action_priority enhanced_env doubles3 (use_move 1 ''tackle'') = Inr (0, 50)"
    by (simp add: py_slot_def)
  have "map_sum id (\<lambda>b. ()) (execute_switch enhanced_env doubles3 (switch_to 1 2)) = Inr ()"
    by code_simp
  then obtain b' where run: "execute_switch enhanced_env doubles3 (switch_to 1 2) = Inr b'"
    by (cases "execute_switch enhanced_env doubles3 (switch_to 1 2)") auto
  from first_active_slot [where battle = doubles3 and env = enhanced_env
        and action = "switch_to 1 2" and ?a0.0 = 0 and rest = "[1]" and b' = b',
        unfolded s, OF ap(1) lo(1) hi(1) fr] run
  have sw: "active_positions (trainer b') = [2, 1]"
    by (auto simp: switch_to_def new_action_def get_battler_def)
  have pre: "phase forced3 = ''FORCED_SWITCH''"
      "forced_switch_battler_id forced3 = Some (action_battler_id (switch_to 1 2))"
      "(2::int) < int (length (party (get_battler forced3 Trainer)))"
      "0 < current_hp (party (get_battler forced3 Trainer) ! nat 2)"
      "action_battler_id (switch_to 1 2) = 1"
    by code_simp+
  have "map_sum id (\<lambda>b. ()) (execute_switch enhanced_env forced3 (switch_to 1 2)) = Inr ()"
    by code_simp
  then obtain b1 where run1: "execute_switch enhanced_env forced3 (switch_to 1 2) = Inr b1"
    by (cases "execute_switch enhanced_env forced3 (switch_to 1 2)") auto
  note th = first_active_slot [where battle = forced3 and env = enhanced_env
        and action = "switch_to 1 2" and ?a0.0 = 0 and rest = "[1]" and p = 2,
        unfolded s, OF ap(2) lo(2) hi(2) fr]
  from th pre run1
  have fs: "force_switch_battle enhanced_env forced3 1 2 =
      Inr (Inr (b1\<lparr>phase := ''WAITING_ACTIONS'', forced_switch_battler_id := None,
                    pending_ai_switch_index := None,
                    pending_actions := dict_pop 1 (pending_actions b1)\<rparr>))"
    by simp
  from th [where b'' = "b1\<lparr>phase := ''WAITING_ACTIONS'', forced_switch_battler_id := None,
                    pending_ai_switch_index := None,
                    pending_actions := dict_pop 1 (pending_actions b1)\<rparr>"] fs pre
  have "active_positions (trainer b1) = [2, 1]"
    by (simp add: get_battler_def)
  with fs have forced: "\<exists>b''. force_switch_battle enhanced_env forced3 1 2 = Inr (Inr b'')
           \<and> active_positions (trainer b'') = [2, 1] \<and> phase b'' = ''WAITING_ACTIONS''"
    by simp
  from fmt mt prio run sw forced show ?thesis by blast
qed

section \<open>A turn, step by step\<close>

lemma start_battle_id:
  "start_battle env reg nid rid n tid tname tp op ty fmt oid oname ai rk cls prize = Inr (bid, reg1)
   \<Longrightarrow> bid = nid"
  by (auto simp: start_battle_def Let_def split: if_splits)

lemma after_turn_process_turn:
  "after_turn (process_turn env reg bid) bid =
     (case reg bid of
        None \<Rightarrow> None
      | Some b \<Rightarrow> (case process_turn_battle env b of Inl e \<Rightarrow> None | Inr b1 \<Rightarrow> Some b1))"
  by (simp add: after_turn_def process_turn_def split: option.splits sum.splits)

lemma after_wild_turn:
  "after_turn (wild_turn env mine wild) ''w1'' =
     (case started_wild env mine wild of
        None \<Rightarrow> None
      | Some b \<Rightarrow> (case process_turn_battle env b of Inl e \<Rightarrow> None | Inr b1 \<Rightarrow> Some b1))"
proof (cases "start_battle env Map.empty ''w1'' 1234 0 1 ''Ash'' [mine] [wild]
             WILD SINGLES None None True False None 0")
  case (Inl e)
  then show ?thesis by (simp add: wild_turn_def started_wild_def after_turn_def)
next
  case (Inr r)
  obtain bid reg1 where r: "r = (bid, reg1)" by (cases r)
  from start_battle_id Inr r have bid: "bid = ''w1''" by blast
  show ?thesis
    using Inr r bid by (simp add: wild_turn_def started_wild_def after_turn_process_turn)
qed

lemma process_turn_battle_steps:
  "add_ai_action env Trainer b = Inr b1 \<Longrightarrow> add_ai_action env Opponent b1 = Inr b2 \<Longrightarrow>
   sort_actions env b2 (map snd (pending_actions b2)) = Inr acts \<Longrightarrow>
   run_actions env acts b2 = Inr b3 \<Longrightarrow> end_of_turn_stage env b3 = Inr b4 \<Longrightarrow>
   process_turn_battle env b = Inr (finish_turn b4)"
  by (simp add: process_turn_battle_def)

lemma run_actions_step:
  "\<not> is_over b \<Longrightarrow> \<not> wild_dazed b \<Longrightarrow> skip_action b a = Inr False \<Longrightarrow>
   execute_action env b a = Inr b1 \<Longrightarrow> run_actions env (a # acts) b = run_actions env acts b1"
  by simp

lemma execute_move_hit:
  assumes tgt: "move_targets b a = Inr (sa, ai, sd, di)"
      and nosm: "enhanced env = None \<or> status_manager (get_pokemon b sa ai) = None"
      and md: "moves_db env (move_id a) = Some md"
      and free: "\<not> (items_db env \<noteq> None \<and> check_move_restrictions env (get_pokemon b sa ai) md)"
      and legal: "\<not> (ruleset b \<noteq> None \<and> \<not> is_move_allowed env (move_id a) (the (ruleset b)))"
  shows "execute_move env b a = Inr (handle_faint (resolve_hit env b a sa ai sd di md) sd di)"
proof -
  have id: "map_pokemon sa ai (\<lambda>_. get_pokemon b sa ai) b = b"
    by (cases sa) (simp_all add: map_pokemon_def get_pokemon_def get_battler_def set_battler_def
                     Let_def)
  have chk: "(if enhanced env \<noteq> None \<and> status_manager (get_pokemon b sa ai) \<noteq> None
              then sm_can_move env (get_pokemon b sa ai) else (True, get_pokemon b sa ai))
             = (True, get_pokemon b sa ai)"
    using nosm by auto
  show ?thesis
    unfolding execute_move_def tgt Let_def sum.case prod.case chk
    using md free legal by (auto simp: id)
qed

lemma handle_faint_wild_flags:
  assumes "battle_type h = WILD" "current_hp (get_pokemon h Opponent di) \<le> 0"
      and "di < length (party (opponent h))"
  shows "current_hp (get_pokemon (handle_faint h Opponent di) Opponent di) = 1"
    and "wild_dazed (handle_faint h Opponent di)"
    and "phase (handle_faint h Opponent di) = ''DAZED''"
  using assms
  by (simp_all add: handle_faint_def get_pokemon_def get_battler_def map_pokemon_def
        set_battler_def Let_def)

lemma end_of_turn_stage_dazed: "wild_dazed b \<Longrightarrow> end_of_turn_stage env b = Inr b"
  by (simp add: end_of_turn_stage_def)

lemma run_actions_wild_dazed: "wild_dazed b \<Longrightarrow> run_actions env acts b = Inr b"
  by (cases acts) simp_all

lemma handle_faint_wild_trainer:
  "battle_type h = WILD \<Longrightarrow> current_hp (get_pokemon h Opponent di) \<le> 0 \<Longrightarrow>
   trainer (handle_faint h Opponent di) = trainer h"
  by (simp add: handle_faint_def get_battler_def map_pokemon_def set_battler_def Let_def)

lemma handle_faint_wild_usable:
  assumes "battle_type h = WILD" "current_hp (get_pokemon h Opponent di) \<le> 0"
      and "di < length (party (opponent h))"
  shows "has_usable_pokemon (opponent (handle_faint h Opponent di))"
proof -
  have "party (opponent (handle_faint h Opponent di))
        = (party (opponent h))[di := (party (opponent h) ! di)\<lparr>current_hp := 1\<rparr>]"
    using assms(1,2)
    by (simp add: handle_faint_def get_battler_def map_pokemon_def set_battler_def Let_def)
  then have "(party (opponent h) ! di)\<lparr>current_hp := 1\<rparr>
       \<in> set (party (opponent (handle_faint h Opponent di)))"
    using assms(3) by (simp add: set_update_memI)
  then show ?thesis unfolding has_usable_pokemon_iff by (rule bexI[rotated]) simp
qed

lemma finish_turn_lost:
  assumes "\<not> has_usable_pokemon (trainer b)" "has_usable_pokemon (opponent b)"
  shows "is_over (finish_turn b)" "winner (finish_turn b) = Some ''opponent''"
    "phase (finish_turn b) = phase b" "wild_dazed (finish_turn b) = wild_dazed b"
    "get_pokemon (finish_turn b) s i = get_pokemon b s i"
  using assms
  by (simp_all add: finish_turn_def check_battle_end_def get_pokemon_def get_battler_def
        split: side.splits)

section \<open>Wild daze: results\<close>

lemma run_actions_dazed: "wild_dazed b \<Longrightarrow> run_actions env acts b = Inr b"
  by (cases acts) simp_all

lemma run_actions_over: "is_over b \<Longrightarrow> run_actions env acts b = Inr b"
  by (cases acts) simp_all

lemma check_battle_end_usable:
  "has_usable_pokemon (trainer b) \<Longrightarrow> has_usable_pokemon (opponent b) \<Longrightarrow>
   check_battle_end b = b"
  by (simp add: check_battle_end_def)

text \<open>
  Claim C1, as amended. \<^verbatim>\<open>_execute_move\<close> ends with \<open>handle_faint\<close> on the state \<open>h\<close> the hit
  has produced (\<open>execute_move_hit\<close>). In wild mode, when the opponent's combatant is at 0
  HP or below in \<open>h\<close>, its HP becomes 1, \<open>wild_dazed\<close> is set and the phase is \<open>DAZED\<close>;
  \<open>is_over\<close> and \<open>winner\<close> are as in \<open>h\<close>. No further action of the turn runs and the
  end-of-turn stage does nothing. The terminal check of the turn still runs: it leaves
  \<open>is_over\<close> and \<open>winner\<close> as they were when the trainer still has a usable combatant.
\<close>

theorem wild_daze:
  fixes env :: engine_env and h :: battle_state and di :: nat
  defines "b' \<equiv> handle_faint h Opponent di"
  assumes wild: "battle_type h = WILD"
      and ko: "current_hp (get_pokemon h Opponent di) \<le> 0"
      and di: "di < length (party (opponent h))"
  shows "current_hp (get_pokemon b' Opponent di) = 1
       \<and> wild_dazed b' \<and> phase b' = ''DAZED''
       \<and> is_over b' = is_over h \<and> winner b' = winner h
       \<and> run_actions env rest b' = Inr b'
       \<and> end_of_turn_stage env b' = Inr b'
       \<and> (has_usable_pokemon (trainer b') \<longrightarrow>
            finish_turn b' = b'\<lparr>pending_actions := [], turn_number := turn_number b' + 1\<rparr>
            \<and> is_over (finish_turn b') = is_over h \<and> winner (finish_turn b') = winner h)"
proof -
  have b': "b' = (map_pokemon Opponent di (\<lambda>p. p\<lparr>current_hp := 1\<rparr>) h)
                   \<lparr>phase := ''DAZED'', wild_dazed := True\<rparr>"
    using wild ko by (simp add: b'_def handle_faint_def get_battler_def)
  have hp: "current_hp (get_pokemon b' Opponent di) = 1"
    using di by (simp add: b' get_pokemon_def map_pokemon_def get_battler_def set_battler_def
                     Let_def)
  have flags: "wild_dazed b'" "phase b' = ''DAZED''" "is_over b' = is_over h"
      "winner b' = winner h"
    by (simp_all add: b' map_pokemon_def set_battler_def get_battler_def Let_def)
  have "get_pokemon b' Opponent di \<in> set (party (opponent b'))"
    using di by (simp add: b' get_pokemon_def map_pokemon_def get_battler_def set_battler_def
                     Let_def set_update_memI)
  with hp have opp: "has_usable_pokemon (opponent b')"
    by (auto simp: has_usable_pokemon_iff intro!: bexI[of _ "get_pokemon b' Opponent di"])
  have fin: "has_usable_pokemon (trainer b') \<Longrightarrow>
      finish_turn b' = b'\<lparr>pending_actions := [], turn_number := turn_number b' + 1\<rparr>"
    using opp by (simp add: finish_turn_def check_battle_end_usable)
  show ?thesis
    using hp flags fin run_actions_dazed[OF flags(1)]
    by (auto simp: end_of_turn_stage_def)
qed

theorem wild_daze_witness:
  "battle_type wild_ko = WILD
   \<and> current_hp (get_pokemon wild_ko Opponent 0) \<le> 0
   \<and> daze_report (finish_turn (handle_faint wild_ko Opponent 0))
       = (1, True, ''DAZED'', False, None)
   \<and> map_option daze_report (after_turn (wild_turn basic_env (mk_pokemon ''Pikachu'' 35 35 90 [tackle_slot]) (mk_pokemon ''Rattata'' 5 30 50 [tackle_slot])) ''w1'')
       = Some (1, True, ''DAZED'', False, None)"
proof -
  have w: "battle_type wild_ko = WILD" by code_simp
  have k: "current_hp (get_pokemon wild_ko Opponent 0) \<le> 0" by code_simp
  have d: "0 < length (party (opponent wild_ko))" by code_simp
  have u: "has_usable_pokemon (trainer (handle_faint wild_ko Opponent 0))" by code_simp
  have o: "\<not> is_over wild_ko" "winner wild_ko = None" by code_simp+
  have t: "map_option daze_report (after_turn (wild_turn basic_env (mk_pokemon ''Pikachu'' 35 35 90 [tackle_slot]) (mk_pokemon ''Rattata'' 5 30 50 [tackle_slot])) ''w1'')
       = Some (1, True, ''DAZED'', False, None)"
    by code_simp
  from wild_daze [OF w k d, where env = basic_env and rest = "[]"] u o
  have "daze_report (handle_faint wild_ko Opponent 0\<lparr>pending_actions := [],
           turn_number := turn_number (handle_faint wild_ko Opponent 0) + 1\<rparr>)
        = (1, True, ''DAZED'', False, None)
       \<and> finish_turn (handle_faint wild_ko Opponent 0)
           = handle_faint wild_ko Opponent 0\<lparr>pending_actions := [],
               turn_number := turn_number (handle_faint wild_ko Opponent 0) + 1\<rparr>"
    by (simp add: daze_report_def get_pokemon_def get_battler_def)
  with w k t show ?thesis by simp
qed

text \<open>
  Claim C1 as stated fails: the terminal check runs after the daze. When the trainer's last
  combatant faints from its held item's recoil on the hit that dazes the wild combatant,
  the turn ends with \<open>is_over\<close> set and the opponent as winner, the phase being \<open>DAZED\<close>.
\<close>

theorem wild_daze_recoil_counterexample:
  "map_option daze_report (after_turn (wild_turn item_env (holding ''life-orb'' (mk_pokemon ''Pikachu'' 1 10 90 [tackle_slot])) (mk_pokemon ''Rattata'' 5 30 50 [tackle_slot])) ''w1'')
   = Some (1, True, ''DAZED'', True, Some ''opponent'')"
proof -
  let ?a = "use_move 1 ''tackle''" and ?o = "use_move (- 1) ''tackle''"
  have st: "started_wild item_env (holding ''life-orb'' (mk_pokemon ''Pikachu'' 1 10 90 [tackle_slot])) (mk_pokemon ''Rattata'' 5 30 50 [tackle_slot]) = Some recoil_start"
    unfolding recoil_start_def by code_simp
  have a1: "add_ai_action item_env Trainer recoil_start = Inr recoil_start" by code_simp
  have a2: "add_ai_action item_env Opponent recoil_start = Inr recoil_ai" by code_simp
  have so: "sort_actions item_env recoil_ai (map snd (pending_actions recoil_ai)) = Inr [?a, ?o]"
    by code_simp
  have live: "\<not> is_over recoil_ai" "\<not> wild_dazed recoil_ai" by code_simp+
  have sk: "skip_action recoil_ai ?a = Inr False" by code_simp
  have tg: "move_targets recoil_ai ?a = Inr (Trainer, 0, Opponent, 0)" by code_simp
  have en: "enhanced item_env = None \<or> status_manager (get_pokemon recoil_ai Trainer 0) = None"
    by (simp add: item_env_def basic_env_def)
  have md: "moves_db item_env (move_id ?a) = Some tackle_md" by code_simp
  have fr: "\<not> (items_db item_env \<noteq> None
              \<and> check_move_restrictions item_env (get_pokemon recoil_ai Trainer 0) tackle_md)"
    by code_simp
  have lg: "\<not> (ruleset recoil_ai \<noteq> None
              \<and> \<not> is_move_allowed item_env (move_id ?a) (the (ruleset recoil_ai)))"
    by (simp add: item_env_def basic_env_def)
  have mv: "action_type ?a = ''move''" by (simp add: use_move_def new_action_def)
  from execute_move_hit [OF tg en md fr lg] mv
  have ex: "execute_action item_env recoil_ai ?a = Inr (handle_faint recoil_hit Opponent 0)"
    by (simp add: execute_action_def recoil_hit_def)
  have w: "battle_type recoil_hit = WILD" unfolding recoil_hit_def by code_simp
  have k: "current_hp (get_pokemon recoil_hit Opponent 0) \<le> 0"
    unfolding recoil_hit_def by code_simp
  have d: "0 < length (party (opponent recoil_hit))" unfolding recoil_hit_def by code_simp
  have lost: "\<not> has_usable_pokemon (trainer recoil_hit)" unfolding recoil_hit_def by code_simp
  let ?b = "handle_faint recoil_hit Opponent 0"
  note fl = handle_faint_wild_flags [OF w k d]
  have dz: "current_hp (get_pokemon ?b Opponent 0) = 1" "wild_dazed ?b" "phase ?b = ''DAZED''"
      "run_actions item_env [?o] ?b = Inr ?b" "end_of_turn_stage item_env ?b = Inr ?b"
    using fl run_actions_wild_dazed [OF fl(2)] end_of_turn_stage_dazed [OF fl(2)]
    by simp_all
  from run_actions_step [OF live sk ex] dz(4)
  have ra: "run_actions item_env [?a, ?o] recoil_ai = Inr ?b" by simp
  from process_turn_battle_steps [OF a1 a2 so ra dz(5)]
  have pt: "process_turn_battle item_env recoil_start = Inr (finish_turn ?b)" .
  have tl: "\<not> has_usable_pokemon (trainer ?b)"
    using lost handle_faint_wild_trainer [OF w k] by simp
  note fin = finish_turn_lost [OF tl handle_faint_wild_usable [OF w k d]]
  have "daze_report (finish_turn ?b) = (1, True, ''DAZED'', True, Some ''opponent'')"
    using fin dz by (simp add: daze_report_def)
  then show ?thesis
    by (simp add: after_wild_turn st pt)
qed

section \<open>Phase after a turn: results\<close>

lemma phase_set_battler [simp]: "phase (set_battler s bt b) = phase b"
  by (cases s) (simp_all add: set_battler_def)

lemma phase_map_pokemon [simp]: "phase (map_pokemon s i f b) = phase b"
  by (simp add: map_pokemon_def Let_def)

lemma phase_check_battle_end [simp]: "phase (check_battle_end b) = phase b"
  by (simp add: check_battle_end_def Let_def)

lemma phase_clear_toxic [simp]: "phase (clear_toxic_spikes s b) = phase b"
  by (simp add: clear_toxic_spikes_def)

lemma phase_toxic [simp]: "phase (toxic_spikes_entry env hz s i b) = phase b"
  by (simp add: toxic_spikes_entry_def Let_def)

lemma phase_before_web [simp]: "phase (hazards_before_web env hz b s i) = phase b"
  by (simp add: hazards_before_web_def Let_def)

lemma phase_sticky: "sticky_web_entry hz s i b = Inr b' \<Longrightarrow> phase b' = phase b"
  by (auto simp: sticky_web_entry_def Let_def split: if_splits option.splits)

lemma phase_hazards: "apply_entry_hazards env b s i = Inr b' \<Longrightarrow> phase b' = phase b"
  by (auto simp: apply_entry_hazards_def Let_def split: if_splits dest!: phase_sticky)

lemma phase_execute_switch:
  assumes trig: "\<And>enh b s i. enhanced env = Some enh \<Longrightarrow>
                   phase (trigger_on_entry enh b s i) = phase b"
      and run: "execute_switch env b a = Inr b'"
  shows "phase b' = phase b"
proof -
  from run obtain b3 s new where hz: "apply_entry_hazards env b3 s new = Inr b'"
    and b3: "phase b3 = phase b"
    using trig
    by (cases "enhanced env")
       (auto simp: execute_switch_def Let_def split: sum.splits option.splits)
  from phase_hazards[OF hz] b3 show ?thesis by simp
qed

lemma phase_force_switch:
  "force_switch_battle env b bid pos = Inr (Inr b') \<Longrightarrow> phase b' = ''WAITING_ACTIONS''"
  by (auto simp: force_switch_battle_def Let_def split: if_splits sum.splits)

lemma phase_resolve_hit:
  assumes calc: "\<And>enh b sa ai di m. enhanced env = Some enh \<Longrightarrow>
                   phase (snd (snd (calculate_damage_with_effects enh b sa ai di m))) = phase b"
  shows "phase (resolve_hit env b a sa ai sd di md) = phase b"
  using calc by (cases "enhanced env") (simp_all add: resolve_hit_def Let_def)

lemma phase_handle_faint:
  "phase (handle_faint b sd di) = phase b \<or> phase (handle_faint b sd di) = ''FORCED_SWITCH''
   \<or> phase (handle_faint b sd di) = ''DAZED''"
  by (simp add: handle_faint_def Let_def split: option.splits)

lemma phase_execute_move:
  assumes calc: "\<And>enh b sa ai di m. enhanced env = Some enh \<Longrightarrow>
                   phase (snd (snd (calculate_damage_with_effects enh b sa ai di m))) = phase b"
      and run: "execute_move env b a = Inr b'"
  shows "phase b' = phase b \<or> phase b' = ''FORCED_SWITCH'' \<or> phase b' = ''DAZED''"
proof -
  from run obtain sa ai sd di where tgt: "move_targets b a = Inr (sa, ai, sd, di)"
    by (auto simp: execute_move_def split: sum.splits)
  let ?p = "get_pokemon b sa ai"
  let ?checked = "if enhanced env \<noteq> None \<and> status_manager ?p \<noteq> None
                  then sm_can_move env ?p else (True, ?p)"
  let ?b1 = "map_pokemon sa ai (\<lambda>_. snd ?checked) b"
  have em: "execute_move env b a =
      (if \<not> fst ?checked then Inr ?b1
       else (case moves_db env (move_id a) of
               None \<Rightarrow> Inr ?b1
             | Some md \<Rightarrow>
                 if items_db env \<noteq> None \<and> check_move_restrictions env (get_pokemon ?b1 sa ai) md
                 then Inr ?b1
                 else if ruleset ?b1 \<noteq> None
                         \<and> \<not> is_move_allowed env (move_id a) (the (ruleset ?b1))
                 then Inr ?b1
                 else Inr (handle_faint (resolve_hit env ?b1 a sa ai sd di md) sd di)))"
    by (simp only: execute_move_def Let_def tgt sum.case prod.case)
  have "b' = ?b1 \<or> (\<exists>md. b' = handle_faint (resolve_hit env ?b1 a sa ai sd di md) sd di)"
    using run unfolding em by (auto split: if_splits option.splits)
  then show ?thesis
  proof
    assume "b' = ?b1" then show ?thesis by simp
  next
    assume "\<exists>md. b' = handle_faint (resolve_hit env ?b1 a sa ai sd di md) sd di"
    then obtain md where "b' = handle_faint (resolve_hit env ?b1 a sa ai sd di md) sd di" ..
    then show ?thesis
      using phase_handle_faint[of "resolve_hit env ?b1 a sa ai sd di md" sd di]
            phase_resolve_hit[OF calc, where b = ?b1 and a = a and sa = sa and ai = ai
              and sd = sd and di = di and md = md]
      by auto
  qed
qed

lemma phase_execute_flee [simp]: "phase (execute_flee env b) = phase b"
  by (simp add: execute_flee_def Let_def)

lemma phase_execute_action:
  assumes calc: "\<And>enh b sa ai di m. enhanced env = Some enh \<Longrightarrow>
                   phase (snd (snd (calculate_damage_with_effects enh b sa ai di m))) = phase b"
      and trig: "\<And>enh b s i. enhanced env = Some enh \<Longrightarrow>
                   phase (trigger_on_entry enh b s i) = phase b"
      and run: "execute_action env b a = Inr b'"
  shows "phase b' = phase b \<or> phase b' = ''FORCED_SWITCH'' \<or> phase b' = ''DAZED''"
  using run phase_execute_move[OF calc] phase_execute_switch[OF trig]
  by (auto simp: execute_action_def split: if_splits)

lemma phase_run_actions:
  assumes calc: "\<And>enh b sa ai di m. enhanced env = Some enh \<Longrightarrow>
                   phase (snd (snd (calculate_damage_with_effects enh b sa ai di m))) = phase b"
      and trig: "\<And>enh b s i. enhanced env = Some enh \<Longrightarrow>
                   phase (trigger_on_entry enh b s i) = phase b"
  shows "run_actions env acts b = Inr b' \<Longrightarrow>
         phase b' = phase b \<or> phase b' = ''FORCED_SWITCH'' \<or> phase b' = ''DAZED''"
proof (induction acts arbitrary: b)
  case Nil then show ?case by simp
next
  case (Cons a acts)
  show ?case
  proof (cases "is_over b \<or> wild_dazed b")
    case True with Cons.prems show ?thesis by simp
  next
    case False
    show ?thesis
    proof (cases "skip_action b a")
      case (Inl e) with False Cons.prems show ?thesis by simp
    next
      case (Inr sk)
      show ?thesis
      proof (cases sk)
        case True
        with Inr False Cons.prems have "run_actions env acts b = Inr b'" by simp
        from Cons.IH[OF this] show ?thesis .
      next
        case skf: False
        with Inr False Cons.prems obtain b1 where ex: "execute_action env b a = Inr b1"
          and rest: "run_actions env acts b1 = Inr b'"
          by (auto split: sum.splits)
        from phase_execute_action[OF calc trig ex] Cons.IH[OF rest]
        show ?thesis by auto
      qed
    qed
  qed
qed

lemma phase_add_ai_action: "add_ai_action env s b = Inr b' \<Longrightarrow> phase b' = phase b"
  by (auto simp: add_ai_action_def Let_def split: if_splits sum.splits)

lemma phase_fold_eot [simp]: "phase (fold (eot_status_item env) xs b) = phase b"
  by (induction xs arbitrary: b) (simp_all add: eot_status_item_def Let_def)

lemma phase_fold_weather [simp]: "phase (fold (weather_step enh w) xs b) = phase b"
  by (induction xs arbitrary: b) (simp_all add: weather_step_def)

lemma phase_weather_phase [simp]: "phase (weather_phase enh xs b) = phase b"
  by (simp add: weather_phase_def Let_def)

lemma phase_terrain_phase [simp]: "phase (terrain_phase b) = phase b"
  by (simp add: terrain_phase_def Let_def)

lemma phase_process_end_of_turn:
  "process_end_of_turn env b = Inr b' \<Longrightarrow> phase b' = phase b"
  by (auto simp: process_end_of_turn_def Let_def split: option.splits sum.splits)

lemma phase_auto_switch:
  "auto_switch_if_forced_ai env b = Inr b' \<Longrightarrow>
   phase b' = phase b \<or> phase b' = ''WAITING_ACTIONS''"
  by (auto simp: auto_switch_if_forced_ai_def Let_def
           split: if_splits option.splits sum.splits dest: phase_force_switch)

lemma phase_end_of_turn_stage:
  assumes run: "end_of_turn_stage env b = Inr b'"
  shows "phase b' = phase b \<or> phase b' = ''WAITING_ACTIONS''"
proof (cases "wild_dazed b")
  case True with run show ?thesis by (simp add: end_of_turn_stage_def)
next
  case False
  with run obtain b1 where e: "process_end_of_turn env b = Inr b1"
    and a: "auto_switch_if_forced_ai env b1 = Inr b'"
    by (auto simp: end_of_turn_stage_def split: sum.splits)
  from phase_process_end_of_turn[OF e] phase_auto_switch[OF a] show ?thesis by auto
qed

lemma phase_finish_turn [simp]: "phase (finish_turn b) = phase b"
  by (simp add: finish_turn_def)

text \<open>
  Claim C4, as amended. Let the damage calculator and the on-entry ability hook leave
  \<open>phase\<close> alone. After \<^verbatim>\<open>process_turn\<close> has returned, the phase of the battle is
  \<open>FORCED_SWITCH\<close>, \<open>DAZED\<close>, \<open>WAITING_ACTIONS\<close>, or the phase it had before the turn. (A
  battle is created in phase \<open>START\<close>, and \<open>is_over\<close> is set by the terminal check whatever
  the phase.)
\<close>

theorem process_turn_phase:
  assumes calc: "\<And>enh b sa ai di m. enhanced env = Some enh \<Longrightarrow>
                   phase (snd (snd (calculate_damage_with_effects enh b sa ai di m))) = phase b"
      and trig: "\<And>enh b s i. enhanced env = Some enh \<Longrightarrow>
                   phase (trigger_on_entry enh b s i) = phase b"
      and live: "reg bid = Some battle"
      and run: "process_turn env reg bid = Inr (r, reg')"
  shows "\<exists>b'. reg' bid = Some b'
           \<and> (phase b' = phase battle \<or> phase b' = ''FORCED_SWITCH'' \<or> phase b' = ''DAZED''
                \<or> phase b' = ''WAITING_ACTIONS'')"
proof -
  from run live obtain b' where pt: "process_turn_battle env battle = Inr b'"
    and reg': "reg' = reg(bid \<mapsto> b')"
    by (auto simp: process_turn_def split: sum.splits)
  from pt obtain b1 b2 acts b3 b4 where
      s1: "add_ai_action env Trainer battle = Inr b1"
    and s2: "add_ai_action env Opponent b1 = Inr b2"
    and s4: "run_actions env acts b2 = Inr b3"
    and s5: "end_of_turn_stage env b3 = Inr b4"
    and s6: "b' = finish_turn b4"
    by (auto simp: process_turn_battle_def split: sum.splits)
  from phase_add_ai_action[OF s1] phase_add_ai_action[OF s2]
       phase_run_actions[OF calc trig s4] phase_end_of_turn_stage[OF s5] s6
  have "phase b' = phase battle \<or> phase b' = ''FORCED_SWITCH'' \<or> phase b' = ''DAZED''
        \<or> phase b' = ''WAITING_ACTIONS''" by auto
  with reg' show ?thesis by simp
qed

theorem process_turn_phase_witness:
  "\<exists>reg'. process_turn enhanced_env (registry_of faint_duel) ''b1'' = Inr (Inr (), reg')
      \<and> map_option phase (reg' ''b1'') = Some ''FORCED_SWITCH''"
proof -
  have c: "\<And>enh b sa ai di m. enhanced enhanced_env = Some enh \<Longrightarrow>
      phase (snd (snd (calculate_damage_with_effects enh b sa ai di m))) = phase b"
    by (auto simp: enhanced_env_def simple_enhanced_def ex_defs)
  have t: "\<And>enh b s i. enhanced enhanced_env = Some enh \<Longrightarrow>
      phase (trigger_on_entry enh b s i) = phase b"
    by (auto simp: enhanced_env_def simple_enhanced_def ex_defs)
  have l: "registry_of faint_duel ''b1'' = Some faint_duel"
    by (simp add: registry_of_def faint_duel_def ex_defs map_pokemon_def set_battler_def
          get_battler_def Let_def)
  have ok: "map_sum id fst (process_turn enhanced_env (registry_of faint_duel) ''b1'')
      = Inr (Inr ())"
    by code_simp
  then obtain reg' where
    run: "process_turn enhanced_env (registry_of faint_duel) ''b1'' = Inr (Inr (), reg')"
    by (cases "process_turn enhanced_env (registry_of faint_duel) ''b1''") auto
  have ph: "map_option phase
      (after_turn (process_turn enhanced_env (registry_of faint_duel) ''b1'') ''b1'')
      = Some ''FORCED_SWITCH''"
    by code_simp
  from process_turn_phase [OF c t l run] run ph
  show ?thesis by (auto simp: after_turn_def)
qed


text \<open>
  Claim C4 as stated fails: a battle is created in phase \<open>START\<close> and a turn in which nobody
  faints leaves it there, so that none of the four outcomes holds after the first turn.
  (In the counterexample of claim C1 two of them hold.)
\<close>

theorem process_turn_outcome_counterexample:
  "map_option outcome_report (after_turn first_turn ''b1'') = Some (False, ''START'', 0)"
  by code_simp

end
